theory Spec2Isabelle
  imports Complex_Main
begin

section \<open>Numbers and failures\<close>

text \<open>
  The program \<^verbatim>\<open>crossflow.py\<close> computes with Python floats. A Python \<^verbatim>\<open>float\<close> is
  modelled by a \<^typ>\<open>real\<close>: the model keeps the arithmetic the code writes and every
  exception it can raise, and leaves out the rounding, overflow and signed zeros of
  IEEE doubles. A field typed \<^verbatim>\<open>Optional[float] = None\<close> is a \<^typ>\<open>real option\<close>.

  The source defines no exception class and has no \<^verbatim>\<open>try\<close>: what can be raised are
  Python's built-in exceptions, and each propagates to the caller.
  \<^item> \<^verbatim>\<open>TypeError\<close>: arithmetic on a field that is still \<^verbatim>\<open>None\<close>;
  \<^item> \<^verbatim>\<open>ZeroDivisionError\<close>: \<^verbatim>\<open>/\<close> on Python floats with a zero divisor;
  \<^item> \<^verbatim>\<open>IndexError\<close>: \<^verbatim>\<open>[0]\<close> on an empty sequence.
\<close>

datatype error = TypeError | ZeroDivisionError | IndexError

text \<open>Python's class hierarchy: only \<^verbatim>\<open>ZeroDivisionError\<close> derives from \<^verbatim>\<open>ArithmeticError\<close>.\<close>

fun is_ArithmeticError :: "error \<Rightarrow> bool" where
  "is_ArithmeticError ZeroDivisionError = True"
| "is_ArithmeticError TypeError = False"
| "is_ArithmeticError IndexError = False"

text \<open>\<^verbatim>\<open>a / b\<close> on Python floats.\<close>

definition truediv :: "real \<Rightarrow> real \<Rightarrow> error + real" where
  "truediv a b = (if b = 0 then Inl ZeroDivisionError else Inr (a / b))"

text \<open>
  A value computed by numpy (\<^verbatim>\<open>np.float64\<close>, or the one element of an array): numpy does
  not raise on a domain error, it yields \<^verbatim>\<open>nan\<close> (with a warning).
\<close>

datatype npfloat = Num real | NaN

text \<open>\<^verbatim>\<open>np.sqrt(x)\<close> for a Python float \<^verbatim>\<open>x\<close>.\<close>

definition np_sqrt :: "real \<Rightarrow> npfloat" where
  "np_sqrt x = (if x < 0 then NaN else Num (sqrt x))"

text \<open>\<^verbatim>\<open>x * c\<close> for an \<^verbatim>\<open>np.float64\<close> \<^verbatim>\<open>x\<close> and a Python float \<^verbatim>\<open>c\<close>.\<close>

fun np_mul :: "npfloat \<Rightarrow> real \<Rightarrow> npfloat" where
  "np_mul (Num x) c = Num (x * c)"
| "np_mul NaN c = NaN"

text \<open>
  \<^verbatim>\<open>np.tanh(x)/x\<close> for an \<^verbatim>\<open>np.float64\<close> \<^verbatim>\<open>x\<close>: at \<^verbatim>\<open>x = 0\<close> numpy computes \<^verbatim>\<open>0.0/0.0 = nan\<close>.
\<close>

fun np_tanh_over :: "npfloat \<Rightarrow> npfloat" where
  "np_tanh_over (Num x) = (if x = 0 then NaN else Num (tanh x / x))"
| "np_tanh_over NaN = NaN"

section \<open>The state: class \<^verbatim>\<open>ThermoFluidProperties\<close>\<close>

record ThermoFluidProperties =
  cmin :: "real option"
  cr :: "real option"
  water_flow_rate_L_min :: real
  water_vol_flow_rate :: "real option"
  water_density :: real
  water_mass_flow_rate :: "real option"
  water_specific_heat :: real
  T_hot_in :: real
  T_hot_out :: real
  T_cold_in :: real
  T_cold_out :: real
  deltaT1 :: real
  deltaT2 :: real
  water_temp_change :: real
  air_temp_change :: real
  air_specific_heat :: real
  air_mass_flow_rate :: "real option"

subsection \<open>Class-level defaults\<close>

text \<open>
  The class body is executed once, when the class is defined. The names
  \<^verbatim>\<open>T_hot_in\<close>, ... are then plain local variables holding the default numbers, and the
  four difference fields get their defaults from those.
\<close>

definition T_hot_in_default :: real where "T_hot_in_default = 47.4"
definition T_hot_out_default :: real where "T_hot_out_default = 46.4"
definition T_cold_in_default :: real where "T_cold_in_default = 25.5"
definition T_cold_out_default :: real where "T_cold_out_default = 43.0"

definition deltaT1_default :: real where
  "deltaT1_default = T_hot_in_default - T_cold_out_default"
definition deltaT2_default :: real where
  "deltaT2_default = T_hot_out_default - T_cold_in_default"
definition water_temp_change_default :: real where
  "water_temp_change_default = T_hot_in_default - T_hot_out_default"
definition air_temp_change_default :: real where
  "air_temp_change_default = T_cold_out_default - T_cold_in_default"

subsection \<open>The generated constructor\<close>

text \<open>
  \<^verbatim>\<open>@dataclass\<close> generates \<^verbatim>\<open>__init__\<close> with one keyword parameter per field, each with the
  field's default. A call is modelled by the record of its arguments: \<open>None\<close> for a
  parameter the caller leaves out, \<open>Some v\<close> for one the caller supplies. There is no
  \<^verbatim>\<open>__post_init__\<close>: the constructor stores each parameter and computes nothing.
\<close>

record init_args =
  arg_cmin :: "real option option"
  arg_cr :: "real option option"
  arg_water_flow_rate_L_min :: "real option"
  arg_water_vol_flow_rate :: "real option option"
  arg_water_density :: "real option"
  arg_water_mass_flow_rate :: "real option option"
  arg_water_specific_heat :: "real option"
  arg_T_hot_in :: "real option"
  arg_T_hot_out :: "real option"
  arg_T_cold_in :: "real option"
  arg_T_cold_out :: "real option"
  arg_deltaT1 :: "real option"
  arg_deltaT2 :: "real option"
  arg_water_temp_change :: "real option"
  arg_air_temp_change :: "real option"
  arg_air_specific_heat :: "real option"
  arg_air_mass_flow_rate :: "real option option"

fun supplied_or :: "'a \<Rightarrow> 'a option \<Rightarrow> 'a" where
  "supplied_or d None = d"
| "supplied_or d (Some v) = v"

definition init :: "init_args \<Rightarrow> ThermoFluidProperties" where
  "init a = \<lparr>
     cmin = supplied_or None (arg_cmin a),
     cr = supplied_or None (arg_cr a),
     water_flow_rate_L_min = supplied_or 2.10 (arg_water_flow_rate_L_min a),
     water_vol_flow_rate = supplied_or None (arg_water_vol_flow_rate a),
     water_density = supplied_or 1000.0 (arg_water_density a),
     water_mass_flow_rate = supplied_or None (arg_water_mass_flow_rate a),
     water_specific_heat = supplied_or 4.18 (arg_water_specific_heat a),
     T_hot_in = supplied_or T_hot_in_default (arg_T_hot_in a),
     T_hot_out = supplied_or T_hot_out_default (arg_T_hot_out a),
     T_cold_in = supplied_or T_cold_in_default (arg_T_cold_in a),
     T_cold_out = supplied_or T_cold_out_default (arg_T_cold_out a),
     deltaT1 = supplied_or deltaT1_default (arg_deltaT1 a),
     deltaT2 = supplied_or deltaT2_default (arg_deltaT2 a),
     water_temp_change = supplied_or water_temp_change_default (arg_water_temp_change a),
     air_temp_change = supplied_or air_temp_change_default (arg_air_temp_change a),
     air_specific_heat = supplied_or 1.005 (arg_air_specific_heat a),
     air_mass_flow_rate = supplied_or None (arg_air_mass_flow_rate a) \<rparr>"

text \<open>The call \<^verbatim>\<open>ThermoFluidProperties()\<close>: no argument supplied.\<close>

definition no_args :: init_args where
  "no_args = \<lparr>
     arg_cmin = None, arg_cr = None, arg_water_flow_rate_L_min = None,
     arg_water_vol_flow_rate = None, arg_water_density = None,
     arg_water_mass_flow_rate = None, arg_water_specific_heat = None,
     arg_T_hot_in = None, arg_T_hot_out = None, arg_T_cold_in = None,
     arg_T_cold_out = None, arg_deltaT1 = None, arg_deltaT2 = None,
     arg_water_temp_change = None, arg_air_temp_change = None,
     arg_air_specific_heat = None, arg_air_mass_flow_rate = None \<rparr>"

section \<open>The methods\<close>

text \<open>
  A method that assigns to \<^verbatim>\<open>self\<close> returns its value together with the new state; a
  method that can raise returns \<open>Inl\<close> of the exception.
\<close>

definition calculate_duty :: "ThermoFluidProperties \<Rightarrow> error + real" where
  "calculate_duty s =
     (case water_mass_flow_rate s of
        None \<Rightarrow> Inl TypeError
      | Some m \<Rightarrow> Inr (m * water_specific_heat s * water_temp_change s * 1000))"

definition calculate_water_mass_flow ::
  "ThermoFluidProperties \<Rightarrow> real \<times> ThermoFluidProperties" where
  "calculate_water_mass_flow s =
     (let v = water_flow_rate_L_min s * (1 / 1000) * (1 / 60);
          s1 = s\<lparr>water_vol_flow_rate := Some v\<rparr>;
          m = v * water_density s1;
          s2 = s1\<lparr>water_mass_flow_rate := Some m\<rparr>
      in (m, s2))"

definition calculate_air_mass_flow ::
  "ThermoFluidProperties \<Rightarrow> error + real \<times> ThermoFluidProperties" where
  "calculate_air_mass_flow s =
     (case calculate_duty s of
        Inl e \<Rightarrow> Inl e
      | Inr Q \<Rightarrow>
          (case truediv Q (air_specific_heat s * air_temp_change s * 1000) of
             Inl e \<Rightarrow> Inl e
           | Inr a \<Rightarrow> Inr (a, s\<lparr>air_mass_flow_rate := Some a\<rparr>)))"

definition calculate_heat_capacity_rates ::
  "ThermoFluidProperties \<Rightarrow> error + (real \<times> real) \<times> ThermoFluidProperties" where
  "calculate_heat_capacity_rates s =
     (case water_mass_flow_rate s of
        None \<Rightarrow> Inl TypeError
      | Some mw \<Rightarrow>
          (let C_h = mw * water_specific_heat s * 1000 in
           case air_mass_flow_rate s of
             None \<Rightarrow> Inl TypeError
           | Some ma \<Rightarrow>
               (let C_c = ma * air_specific_heat s * 1000 in
                case truediv C_c C_h of
                  Inl e \<Rightarrow> Inl e
                | Inr r \<Rightarrow>
                    (let s1 = s\<lparr>cr := Some r\<rparr>;
                         s2 = (if C_h \<le> C_c then s1\<lparr>cmin := Some C_h\<rparr>
                               else s1\<lparr>cmin := Some C_c\<rparr>)
                     in Inr ((C_h, C_c), s2)))))"

definition calculate_actual_heat_transfer ::
  "ThermoFluidProperties \<Rightarrow> error + real \<times> ThermoFluidProperties" where
  "calculate_actual_heat_transfer s =
     (case calculate_heat_capacity_rates s of
        Inl e \<Rightarrow> Inl e
      | Inr ((C_h, _), s1) \<Rightarrow> Inr (C_h * water_temp_change s1, s1))"

definition calculate_max_heat_transfer ::
  "ThermoFluidProperties \<Rightarrow> error + real \<times> ThermoFluidProperties" where
  "calculate_max_heat_transfer s =
     (case calculate_heat_capacity_rates s of
        Inl e \<Rightarrow> Inl e
      | Inr ((_, C_c), s1) \<Rightarrow>
          (case cmin s1 of
             None \<Rightarrow> Inl TypeError
           | Some c \<Rightarrow> Inr (c * (T_hot_in s1 - T_cold_in s1), s1)))"

definition calculate_effectiveness ::
  "ThermoFluidProperties \<Rightarrow> error + real \<times> ThermoFluidProperties" where
  "calculate_effectiveness s =
     (case calculate_actual_heat_transfer s of
        Inl e \<Rightarrow> Inl e
      | Inr (q_actual, s1) \<Rightarrow>
          (case calculate_max_heat_transfer s1 of
             Inl e \<Rightarrow> Inl e
           | Inr (q_max, s2) \<Rightarrow>
               (case truediv q_actual q_max of
                  Inl e \<Rightarrow> Inl e
                | Inr eps \<Rightarrow> Inr (eps, s2))))"

subsection \<open>The NTU solve\<close>

text \<open>
  \<^verbatim>\<open>scipy.optimize.fsolve\<close> is a library routine, not code of this repository: it is a
  parameter of the model. It is given the residual function and the seed and returns
  an array of numpy floats (or lets an exception of the residual through). Called as
  the source calls it, without \<^verbatim>\<open>full_output\<close>, it hands back no convergence flag.
\<close>

type_synonym root_finder = "(real \<Rightarrow> error + npfloat) \<Rightarrow> real \<Rightarrow> error + npfloat list"

text \<open>
  The closure \<^verbatim>\<open>effectiveness_equation\<close>. Each call runs \<^verbatim>\<open>self.calculate_effectiveness()\<close>
  again and then reads \<^verbatim>\<open>self.cr\<close>. \<^verbatim>\<open>1/cr\<close> is a division of Python floats; \<^verbatim>\<open>NTU\<close> is a
  numpy array, so \<^verbatim>\<open>NTU**0.22\<close> of a negative \<^verbatim>\<open>NTU\<close> is \<^verbatim>\<open>nan\<close>, and of zero is zero.
\<close>

definition effectiveness_equation :: "ThermoFluidProperties \<Rightarrow> real \<Rightarrow> error + npfloat" where
  "effectiveness_equation s NTU =
     (case calculate_effectiveness s of
        Inl e \<Rightarrow> Inl e
      | Inr (eps, s1) \<Rightarrow>
          (case cr s1 of
             None \<Rightarrow> Inl TypeError
           | Some c \<Rightarrow>
               (case truediv 1 c of
                  Inl e \<Rightarrow> Inl e
                | Inr inv_c \<Rightarrow>
                    Inr (if NTU < 0 then NaN
                         else Num ((1 - eps) -
                                exp (inv_c * NTU powr 0.22 * (exp (- c * NTU powr 0.78) - 1)))))))"

definition calculate_NTU_from_effectiveness ::
  "root_finder \<Rightarrow> ThermoFluidProperties \<Rightarrow> error + npfloat" where
  "calculate_NTU_from_effectiveness fsolve s =
     (let ntu_guess = 1.0 in
      case fsolve (effectiveness_equation s) ntu_guess of
        Inl e \<Rightarrow> Inl e
      | Inr xs \<Rightarrow> (case xs of [] \<Rightarrow> Inl IndexError | ntu_solution # _ \<Rightarrow> Inr ntu_solution))"

subsection \<open>Fin efficiency\<close>

text \<open>
  The body of \<^verbatim>\<open>calculate_fin_efficiency\<close>, with its five constants as parameters
  (the three lengths in millimetres, as the source writes them before dividing by 1000).
  \<^verbatim>\<open>(h*P)/(k*A_c)\<close> divides Python floats; \<^verbatim>\<open>np.sqrt\<close> makes everything after it numpy.
\<close>

definition fin_efficiency :: "real \<Rightarrow> real \<Rightarrow> real \<Rightarrow> real \<Rightarrow> real \<Rightarrow> error + npfloat" where
  "fin_efficiency h k w_mm t_mm L_mm =
     (let w = w_mm / 1000;
          t = t_mm / 1000;
          L = L_mm / 1000;
          P = 2 * w + 2 * t;
          A_c = w * t;
          L_c = L + t / 2
      in case truediv (h * P) (k * A_c) of
           Inl e \<Rightarrow> Inl e
         | Inr q \<Rightarrow> (let m = np_sqrt q in Inr (np_tanh_over (np_mul m L_c))))"

text \<open>The method itself: it ignores \<^verbatim>\<open>self\<close> and uses the fixed constants.\<close>

definition calculate_fin_efficiency :: "ThermoFluidProperties \<Rightarrow> error + npfloat" where
  "calculate_fin_efficiency s = fin_efficiency 100.0 401.0 16.1 0.11 3.72"

subsection \<open>The script under \<^verbatim>\<open>__main__\<close>\<close>

text \<open>
  The values the script prints, in its order. \<open>main_with\<close> is the script's body for a
  given instance; \<open>main\<close> runs it on \<^verbatim>\<open>ThermoFluidProperties()\<close>. An exception ends the
  script: the model then returns the exception only.
\<close>

record published =
  out_water_mass :: real
  out_duty :: real
  out_air_mass :: real
  out_C_h :: real
  out_C_c :: real
  out_q_actual :: real
  out_q_max :: real
  out_effectiveness :: real
  out_ntu :: npfloat
  out_UA :: npfloat
  out_fin_efficiency :: npfloat

fun and_then :: "error + 'a \<Rightarrow> ('a \<Rightarrow> error + 'b) \<Rightarrow> error + 'b" where
  "and_then (Inl e) f = Inl e"
| "and_then (Inr x) f = f x"

definition main_with :: "root_finder \<Rightarrow> ThermoFluidProperties \<Rightarrow> error + published" where
  "main_with fsolve instance1 =
     (case calculate_water_mass_flow instance1 of (water_mass, s1) \<Rightarrow>
      and_then (calculate_duty s1) (\<lambda>duty.
      and_then (calculate_air_mass_flow s1) (\<lambda>(air_mass, s2).
      and_then (calculate_heat_capacity_rates s2) (\<lambda>((C_h, C_c), s3).
      and_then (calculate_actual_heat_transfer s3) (\<lambda>(q_actual, s4).
      and_then (calculate_max_heat_transfer s4) (\<lambda>(q_max, s5).
      and_then (calculate_effectiveness s5) (\<lambda>(effectiveness, s6).
      and_then (calculate_NTU_from_effectiveness fsolve s6) (\<lambda>ntu.
      and_then (calculate_fin_efficiency s6) (\<lambda>fin_eff.
        Inr \<lparr> out_water_mass = water_mass, out_duty = duty, out_air_mass = air_mass,
              out_C_h = C_h, out_C_c = C_c, out_q_actual = q_actual, out_q_max = q_max,
              out_effectiveness = effectiveness, out_ntu = ntu,
              out_UA = np_mul ntu C_c, out_fin_efficiency = fin_eff \<rparr>)))))))))"

definition main :: "root_finder \<Rightarrow> error + published" where
  "main fsolve = main_with fsolve (init no_args)"

subsection \<open>Instances used in the examples\<close>

text \<open>
  The first steps of the script (lines 136 to 144) on an instance: both mass flow rates
  computed and cached, nothing else touched.
\<close>

definition with_mass_flows :: "ThermoFluidProperties \<Rightarrow> error + ThermoFluidProperties" where
  "with_mass_flows instance1 =
     (case calculate_water_mass_flow instance1 of (water_mass, s1) \<Rightarrow>
      and_then (calculate_air_mass_flow s1) (\<lambda>(air_mass, s2). Inr s2))"

text \<open>The state these steps reach from \<^verbatim>\<open>ThermoFluidProperties()\<close>, written out.\<close>

definition reference_state :: ThermoFluidProperties where
  "reference_state = (init no_args)\<lparr>
     water_vol_flow_rate := Some 0.000035,
     water_mass_flow_rate := Some 0.035,
     air_mass_flow_rate := Some (146.3 / 17587.5) \<rparr>"

text \<open>The same state with the two cached fields as \<open>calculate_heat_capacity_rates\<close> sets them.\<close>

definition reference_cached :: ThermoFluidProperties where
  "reference_cached = reference_state\<lparr>cr := Some (2 / 35), cmin := Some 8.36\<rparr>"

text \<open>
  A root finder that evaluates the residual at the seed, finds no root and hands back
  \<open>v\<close> as its last iterate. (\<^verbatim>\<open>fsolve\<close> that does not converge returns its last iterate
  and prints a warning.)
\<close>

definition gives_up_with :: "npfloat \<Rightarrow> root_finder" where
  "gives_up_with v f x0 = and_then (f x0) (\<lambda>r. Inr [v])"

text \<open>
  \<^verbatim>\<open>ThermoFluidProperties(air_temp_change=0.5)\<close> after the mass flow rates and the capacity
  rates: here the cold rate, 292.6, is the larger one and \<open>cmin\<close> is the hot rate.
\<close>

definition cold_larger_cached :: ThermoFluidProperties where
  "cold_larger_cached = reference_state\<lparr>
     air_temp_change := 0.5,
     air_mass_flow_rate := Some (146.3 / 502.5),
     cr := Some 2,
     cmin := Some 146.3 \<rparr>"


subsection \<open>The correlation and the root finder's contract\<close>



section \<open>Basic facts\<close>

lemma defaults_simps:
  "deltaT1_default = 4.4" "deltaT2_default = 20.9" "water_temp_change_default = 1"
  "air_temp_change_default = 17.5"
  by (simp_all add: deltaT1_default_def deltaT2_default_def water_temp_change_default_def
      air_temp_change_default_def T_hot_in_default_def T_hot_out_default_def
      T_cold_in_default_def T_cold_out_default_def)

lemma reference_state_reached: "with_mass_flows (init no_args) = Inr reference_state"
  by (simp add: with_mass_flows_def reference_state_def calculate_water_mass_flow_def
      calculate_air_mass_flow_def calculate_duty_def truediv_def init_def no_args_def
      defaults_simps Let_def)

lemma reference_state_fields:
  "water_mass_flow_rate reference_state = Some 0.035"
  "air_mass_flow_rate reference_state = Some (146.3 / 17587.5)"
  "water_specific_heat reference_state = 4.18"
  "air_specific_heat reference_state = 1.005"
  "water_temp_change reference_state = 1"
  "air_temp_change reference_state = 17.5"
  "T_hot_in reference_state = 47.4"
  "T_cold_in reference_state = 25.5"
  by (simp_all add: reference_state_def init_def no_args_def defaults_simps
      T_hot_in_default_def T_cold_in_default_def)

lemma reference_cached_fields:
  "water_mass_flow_rate reference_cached = Some 0.035"
  "air_mass_flow_rate reference_cached = Some (146.3 / 17587.5)"
  "water_specific_heat reference_cached = 4.18"
  "air_specific_heat reference_cached = 1.005"
  "water_temp_change reference_cached = 1"
  "T_hot_in reference_cached = 47.4"
  "T_cold_in reference_cached = 25.5"
  "cmin reference_cached = Some 8.36"
  "cr reference_cached = Some (2 / 35)"
  by (simp_all add: reference_cached_def reference_state_fields)

lemma and_then_Inr_iff: "and_then x f = Inr y \<longleftrightarrow> (\<exists>a. x = Inr a \<and> f a = Inr y)"
  by (cases x) simp_all

subsection \<open>\<open>calculate_heat_capacity_rates\<close>\<close>

text \<open>
  Once both mass flow rates are set, the method fails exactly when \<open>C_h\<close> is zero, and
  otherwise caches the ratio and the smaller rate. A second call changes nothing.
\<close>

lemma heat_capacity_rates_set:
  assumes "water_mass_flow_rate s = Some mw" and "air_mass_flow_rate s = Some ma"
    and "mw * water_specific_heat s * 1000 \<noteq> 0"
  shows "calculate_heat_capacity_rates s =
     Inr ((mw * water_specific_heat s * 1000, ma * air_specific_heat s * 1000),
          s\<lparr>cr := Some (ma * air_specific_heat s * 1000 / (mw * water_specific_heat s * 1000)),
            cmin := Some (min (mw * water_specific_heat s * 1000)
                              (ma * air_specific_heat s * 1000))\<rparr>)"
  using assms by (simp add: calculate_heat_capacity_rates_def truediv_def Let_def min_def)

lemma heat_capacity_rates_zero:
  assumes "water_mass_flow_rate s = Some mw" and "air_mass_flow_rate s = Some ma"
    and "mw * water_specific_heat s * 1000 = 0"
  shows "calculate_heat_capacity_rates s = Inl ZeroDivisionError"
  using assms by (simp add: calculate_heat_capacity_rates_def truediv_def Let_def)

lemma heat_capacity_rates_Inr:
  assumes "calculate_heat_capacity_rates s = Inr (p, s')"
  shows "\<exists>mw ma. water_mass_flow_rate s = Some mw \<and> air_mass_flow_rate s = Some ma
           \<and> mw * water_specific_heat s * 1000 \<noteq> 0
           \<and> s' = s\<lparr>cr := Some (ma * air_specific_heat s * 1000 / (mw * water_specific_heat s * 1000)),
                     cmin := Some (min (mw * water_specific_heat s * 1000)
                                       (ma * air_specific_heat s * 1000))\<rparr>"
proof -
  from assms obtain mw ma where f: "water_mass_flow_rate s = Some mw" "air_mass_flow_rate s = Some ma"
    and ne: "mw * water_specific_heat s * 1000 \<noteq> 0"
    by (auto simp: calculate_heat_capacity_rates_def truediv_def Let_def
        split: option.splits if_splits)
  from assms show ?thesis
    unfolding heat_capacity_rates_set [OF f ne] using f ne by auto
qed

lemma heat_capacity_rates_idempotent:
  assumes "calculate_heat_capacity_rates s = Inr (p, s')"
  shows "calculate_heat_capacity_rates s' = Inr (p, s')"
proof -
  from heat_capacity_rates_Inr [OF assms] obtain mw ma where
    f: "water_mass_flow_rate s = Some mw" "air_mass_flow_rate s = Some ma"
    and ne: "mw * water_specific_heat s * 1000 \<noteq> 0"
    and s': "s' = s\<lparr>cr := Some (ma * air_specific_heat s * 1000 / (mw * water_specific_heat s * 1000)),
                     cmin := Some (min (mw * water_specific_heat s * 1000)
                                       (ma * air_specific_heat s * 1000))\<rparr>"
    by blast
  have p: "p = (mw * water_specific_heat s * 1000, ma * air_specific_heat s * 1000)"
    using assms unfolding heat_capacity_rates_set [OF f ne] by simp
  have f': "water_mass_flow_rate s' = Some mw" "air_mass_flow_rate s' = Some ma"
    and ne': "mw * water_specific_heat s' * 1000 \<noteq> 0"
    using f ne by (simp_all add: s')
  show ?thesis
    unfolding heat_capacity_rates_set [OF f' ne'] by (simp add: s' p)
qed

lemma heat_capacity_rates_cold:
  assumes "calculate_heat_capacity_rates s = Inr ((C_h, C_c), s')"
  shows "\<exists>ma. air_mass_flow_rate s = Some ma \<and> C_c = ma * air_specific_heat s * 1000"
  using assms
  by (auto simp: calculate_heat_capacity_rates_def Let_def split: option.splits sum.splits)

lemma actual_heat_transfer_after_rates:
  assumes "calculate_heat_capacity_rates s = Inr (p, s')"
    and "calculate_actual_heat_transfer s' = Inr (q, t)"
  shows "t = s'"
  using assms(2) heat_capacity_rates_idempotent [OF assms(1)]
  by (auto simp: calculate_actual_heat_transfer_def split: prod.splits)

lemma max_heat_transfer_after_rates:
  assumes "calculate_heat_capacity_rates s = Inr (p, s')"
    and "calculate_max_heat_transfer s' = Inr (q, t)"
  shows "t = s'"
  using assms(2) heat_capacity_rates_idempotent [OF assms(1)]
  by (auto simp: calculate_max_heat_transfer_def split: prod.splits option.splits)

subsection \<open>\<open>calculate_effectiveness\<close>\<close>

text \<open>
  The value and the final state in terms of the fields: one division, of
  \<open>C_h * water_temp_change\<close> by \<open>cmin * (T_hot_in - T_cold_in)\<close>.
\<close>

lemma effectiveness_value:
  assumes mw: "water_mass_flow_rate s = Some mw" and ma: "air_mass_flow_rate s = Some ma"
    and ne: "mw * water_specific_heat s * 1000 \<noteq> 0"
  shows "calculate_effectiveness s =
     (case truediv (mw * water_specific_heat s * 1000 * water_temp_change s)
             (min (mw * water_specific_heat s * 1000) (ma * air_specific_heat s * 1000)
                * (T_hot_in s - T_cold_in s)) of
        Inl e \<Rightarrow> Inl e
      | Inr eps \<Rightarrow> Inr (eps,
          s\<lparr>cr := Some (ma * air_specific_heat s * 1000 / (mw * water_specific_heat s * 1000)),
            cmin := Some (min (mw * water_specific_heat s * 1000)
                              (ma * air_specific_heat s * 1000))\<rparr>))"
proof -
  define s1 where "s1 = s\<lparr>cr := Some (ma * air_specific_heat s * 1000 / (mw * water_specific_heat s * 1000)),
            cmin := Some (min (mw * water_specific_heat s * 1000) (ma * air_specific_heat s * 1000))\<rparr>"
  have hc: "calculate_heat_capacity_rates s =
       Inr ((mw * water_specific_heat s * 1000, ma * air_specific_heat s * 1000), s1)"
    unfolding s1_def by (rule heat_capacity_rates_set [OF mw ma ne])
  have a: "calculate_actual_heat_transfer s =
       Inr (mw * water_specific_heat s * 1000 * water_temp_change s, s1)"
    unfolding calculate_actual_heat_transfer_def hc by (simp add: s1_def)
  have "calculate_heat_capacity_rates s1 =
       Inr ((mw * water_specific_heat s * 1000, ma * air_specific_heat s * 1000), s1)"
    using heat_capacity_rates_set [of s1 mw ma] mw ma ne by (simp add: s1_def)
  then have b: "calculate_max_heat_transfer s1 =
       Inr (min (mw * water_specific_heat s * 1000) (ma * air_specific_heat s * 1000)
                * (T_hot_in s - T_cold_in s), s1)"
    unfolding calculate_max_heat_transfer_def by (simp add: s1_def)
  have "calculate_effectiveness s =
     (case truediv (mw * water_specific_heat s * 1000 * water_temp_change s)
             (min (mw * water_specific_heat s * 1000) (ma * air_specific_heat s * 1000)
                * (T_hot_in s - T_cold_in s)) of
        Inl e \<Rightarrow> Inl e
      | Inr eps \<Rightarrow> Inr (eps, s1))"
    unfolding calculate_effectiveness_def a by (simp add: b split: sum.splits)
  then show ?thesis unfolding s1_def .
qed

lemma effectiveness_Inr_fields:
  assumes "calculate_effectiveness s = Inr (eps, s')"
  shows "\<exists>mw ma. water_mass_flow_rate s = Some mw \<and> air_mass_flow_rate s = Some ma
           \<and> mw * water_specific_heat s * 1000 \<noteq> 0"
proof -
  obtain p s1 where "calculate_heat_capacity_rates s = Inr (p, s1)"
    using assms
    by (auto simp: calculate_effectiveness_def calculate_actual_heat_transfer_def
        split: sum.splits prod.splits)
  then show ?thesis
    by (auto simp: calculate_heat_capacity_rates_def truediv_def Let_def
        split: option.splits if_splits)
qed

text \<open>
  The closure \<open>effectiveness_equation\<close> calls \<open>calculate_effectiveness\<close> at every
  evaluation. The call is idempotent, so the residual is one function of the state at
  entry, whatever the number of evaluations.
\<close>

lemma effectiveness_idempotent:
  assumes "calculate_effectiveness s = Inr (eps, s')"
  shows "calculate_effectiveness s' = Inr (eps, s')"
proof -
  from effectiveness_Inr_fields [OF assms] obtain mw ma where
    f: "water_mass_flow_rate s = Some mw" "air_mass_flow_rate s = Some ma"
    and ne: "mw * water_specific_heat s * 1000 \<noteq> 0" by blast
  from assms have r: "truediv (mw * water_specific_heat s * 1000 * water_temp_change s)
             (min (mw * water_specific_heat s * 1000) (ma * air_specific_heat s * 1000)
                * (T_hot_in s - T_cold_in s)) = Inr eps"
    and s': "s' = s\<lparr>cr := Some (ma * air_specific_heat s * 1000 / (mw * water_specific_heat s * 1000)),
            cmin := Some (min (mw * water_specific_heat s * 1000)
                              (ma * air_specific_heat s * 1000))\<rparr>"
    unfolding effectiveness_value [OF f ne] by (simp_all split: sum.splits)
  have f': "water_mass_flow_rate s' = Some mw" "air_mass_flow_rate s' = Some ma"
    and ne': "mw * water_specific_heat s' * 1000 \<noteq> 0"
    and g: "water_specific_heat s' = water_specific_heat s" "air_specific_heat s' = air_specific_heat s"
      "water_temp_change s' = water_temp_change s" "T_hot_in s' = T_hot_in s" "T_cold_in s' = T_cold_in s"
    using f ne by (simp_all add: s')
  show ?thesis
    unfolding effectiveness_value [OF f' ne'] g r by (simp add: s')
qed

lemma effectiveness_after_rates:
  assumes "calculate_heat_capacity_rates s = Inr (p, s')"
    and "calculate_effectiveness s' = Inr (eps, t)"
  shows "t = s'" and "calculate_effectiveness s = Inr (eps, s')"
proof -
  from heat_capacity_rates_Inr [OF assms(1)] obtain mw ma where
    f: "water_mass_flow_rate s = Some mw" "air_mass_flow_rate s = Some ma"
    and ne: "mw * water_specific_heat s * 1000 \<noteq> 0"
    and s': "s' = s\<lparr>cr := Some (ma * air_specific_heat s * 1000 / (mw * water_specific_heat s * 1000)),
                     cmin := Some (min (mw * water_specific_heat s * 1000)
                                       (ma * air_specific_heat s * 1000))\<rparr>"
    by blast
  have f': "water_mass_flow_rate s' = Some mw" "air_mass_flow_rate s' = Some ma"
    and ne': "mw * water_specific_heat s' * 1000 \<noteq> 0"
    and g: "water_specific_heat s' = water_specific_heat s" "air_specific_heat s' = air_specific_heat s"
      "water_temp_change s' = water_temp_change s" "T_hot_in s' = T_hot_in s" "T_cold_in s' = T_cold_in s"
    using f ne by (simp_all add: s')
  from assms(2) have r: "truediv (mw * water_specific_heat s * 1000 * water_temp_change s)
             (min (mw * water_specific_heat s * 1000) (ma * air_specific_heat s * 1000)
                * (T_hot_in s - T_cold_in s)) = Inr eps"
    and t: "t = s'\<lparr>cr := Some (ma * air_specific_heat s * 1000 / (mw * water_specific_heat s * 1000)),
            cmin := Some (min (mw * water_specific_heat s * 1000)
                              (ma * air_specific_heat s * 1000))\<rparr>"
    unfolding effectiveness_value [OF f' ne'] g by (simp_all split: sum.splits)
  show "t = s'" unfolding t by (simp add: s')
  show "calculate_effectiveness s = Inr (eps, s')"
    unfolding effectiveness_value [OF f ne] r by (simp add: s')
qed

lemma effectiveness_equation_value:
  assumes "water_mass_flow_rate s = Some mw" and "air_mass_flow_rate s = Some ma"
    and "C_h = mw * water_specific_heat s * 1000" and "C_c = ma * air_specific_heat s * 1000"
    and "C_h \<noteq> 0" and "C_c \<noteq> 0"
    and "q_actual = C_h * water_temp_change s"
    and "q_max = min C_h C_c * (T_hot_in s - T_cold_in s)" and "q_max \<noteq> 0"
  shows "effectiveness_equation s NTU =
     Inr (if NTU < 0 then NaN
          else Num ((1 - q_actual / q_max) -
                 exp (1 / (C_c / C_h) * NTU powr 0.22 * (exp (- (C_c / C_h) * NTU powr 0.78) - 1))))"
proof -
  have ne: "mw * water_specific_heat s * 1000 \<noteq> 0" using assms(3,5) by simp
  note v = effectiveness_value [OF assms(1,2) ne, folded assms(3,4), folded assms(7,8)]
  have c: "C_c / C_h \<noteq> 0" using assms(5,6) by simp
  show ?thesis
    unfolding effectiveness_equation_def v using assms(9) c
    by (simp add: truediv_def)
qed

text \<open>
  Where \<open>q_actual\<close> is at least \<open>q_max\<close> (an effectiveness of 1 or more) the residual is
  negative at every non-negative NTU: the equation has no root for a root finder to
  converge to.
\<close>

lemma residual_without_root:
  assumes "water_mass_flow_rate s = Some mw" and "air_mass_flow_rate s = Some ma"
    and "C_h = mw * water_specific_heat s * 1000" and "C_c = ma * air_specific_heat s * 1000"
    and "C_h \<noteq> 0" and "C_c \<noteq> 0"
    and "q_actual = C_h * water_temp_change s"
    and "q_max = min C_h C_c * (T_hot_in s - T_cold_in s)"
    and "0 < q_max" and "q_max \<le> q_actual" and "0 \<le> NTU"
  shows "\<exists>r. effectiveness_equation s NTU = Inr (Num r) \<and> r < 0"
proof -
  have ne: "q_max \<noteq> 0" using assms(9) by simp
  have "1 \<le> q_actual / q_max" using assms(9,10) by simp
  then have "(1 - q_actual / q_max) -
      exp (1 / (C_c / C_h) * NTU powr 0.22 * (exp (- (C_c / C_h) * NTU powr 0.78) - 1)) < 0"
    using exp_gt_zero [of "1 / (C_c / C_h) * NTU powr 0.22 * (exp (- (C_c / C_h) * NTU powr 0.78) - 1)"]
    by linarith
  then show ?thesis
    unfolding effectiveness_equation_value [OF assms(1-8) ne] using assms(11) by simp
qed

subsection \<open>The reference run\<close>

lemma reference_rates:
  "calculate_heat_capacity_rates reference_state = Inr ((146.3, 8.36), reference_cached)"
proof -
  have ne: "0.035 * water_specific_heat reference_state * 1000 \<noteq> 0"
    by (simp add: reference_state_fields)
  show ?thesis
    unfolding heat_capacity_rates_set [OF reference_state_fields(1,2) ne] reference_state_fields
    by (simp add: reference_cached_def)
qed

lemma reference_cached_rates:
  "calculate_heat_capacity_rates reference_cached = Inr ((146.3, 8.36), reference_cached)"
  by (rule heat_capacity_rates_idempotent [OF reference_rates])

lemma with_mass_flows_cold_in:
  "with_mass_flows (init (no_args\<lparr>arg_T_cold_in := Some Tc\<rparr>)) = Inr (reference_state\<lparr>T_cold_in := Tc\<rparr>)"
  by (simp add: with_mass_flows_def reference_state_def calculate_water_mass_flow_def
      calculate_air_mass_flow_def calculate_duty_def truediv_def init_def no_args_def
      defaults_simps Let_def)

lemma effectiveness_cold_in:
  "calculate_effectiveness (reference_state\<lparr>T_cold_in := Tc\<rparr>) =
     (case truediv 146.3 (8.36 * (47.4 - Tc)) of
        Inl e \<Rightarrow> Inl e
      | Inr eps \<Rightarrow> Inr (eps, reference_state\<lparr>T_cold_in := Tc, cr := Some (2 / 35), cmin := Some 8.36\<rparr>))"
proof -
  let ?s = "reference_state\<lparr>T_cold_in := Tc\<rparr>"
  have f: "water_mass_flow_rate ?s = Some 0.035" "air_mass_flow_rate ?s = Some (146.3 / 17587.5)"
    by (simp_all add: reference_state_fields)
  have ne: "0.035 * water_specific_heat ?s * 1000 \<noteq> 0"
    by (simp add: reference_state_fields)
  have g: "water_specific_heat ?s = 4.18" "air_specific_heat ?s = 1.005"
    "water_temp_change ?s = 1" "T_hot_in ?s = 47.4" "T_cold_in ?s = Tc"
    by (simp_all add: reference_state_fields)
  show ?thesis
    unfolding effectiveness_value [OF f ne] g by (simp split: sum.splits)
qed

lemma reference_residual:
  "\<exists>r. effectiveness_equation reference_state 1.0 = Inr (Num r)"
proof -
  have a: "(146.3 :: real) = 0.035 * water_specific_heat reference_state * 1000"
    "(8.36 :: real) = 146.3 / 17587.5 * air_specific_heat reference_state * 1000"
    "(146.3 :: real) \<noteq> 0" "(8.36 :: real) \<noteq> 0"
    "(146.3 :: real) = 146.3 * water_temp_change reference_state"
    "(183.084 :: real) = min 146.3 8.36 * (T_hot_in reference_state - T_cold_in reference_state)"
    "(183.084 :: real) \<noteq> 0"
    by (simp_all add: reference_state_fields)
  show ?thesis
    unfolding effectiveness_equation_value [OF reference_state_fields(1,2) a] by simp
qed

lemma reference_cached_residual:
  "\<exists>r. effectiveness_equation reference_cached 1.0 = Inr (Num r)"
proof -
  have a: "(146.3 :: real) = 0.035 * water_specific_heat reference_cached * 1000"
    "(8.36 :: real) = 146.3 / 17587.5 * air_specific_heat reference_cached * 1000"
    "(146.3 :: real) \<noteq> 0" "(8.36 :: real) \<noteq> 0"
    "(146.3 :: real) = 146.3 * water_temp_change reference_cached"
    "(183.084 :: real) = min 146.3 8.36 * (T_hot_in reference_cached - T_cold_in reference_cached)"
    "(183.084 :: real) \<noteq> 0"
    by (simp_all add: reference_cached_fields)
  show ?thesis
    unfolding effectiveness_equation_value [OF reference_cached_fields(1,2) a] by simp
qed

lemma cold_in_35_residual:
  assumes "0 \<le> NTU"
  shows "\<exists>r. effectiveness_equation (reference_state\<lparr>T_cold_in := 35.0\<rparr>) NTU = Inr (Num r) \<and> r < 0"
proof -
  let ?z = "reference_state\<lparr>T_cold_in := 35.0\<rparr>"
  have f: "water_mass_flow_rate ?z = Some 0.035" "air_mass_flow_rate ?z = Some (146.3 / 17587.5)"
    by (simp_all add: reference_state_fields)
  have b: "(146.3 :: real) = 0.035 * water_specific_heat ?z * 1000"
    "(8.36 :: real) = 146.3 / 17587.5 * air_specific_heat ?z * 1000"
    "(146.3 :: real) \<noteq> 0" "(8.36 :: real) \<noteq> 0"
    "(146.3 :: real) = 146.3 * water_temp_change ?z"
    "(103.664 :: real) = min 146.3 8.36 * (T_hot_in ?z - T_cold_in ?z)"
    "(0 :: real) < 103.664" "(103.664 :: real) \<le> 146.3"
    by (simp_all add: reference_state_fields)
  from residual_without_root [OF f b assms] show ?thesis .
qed

lemma water_mass_flow_frame:
  "air_specific_heat (snd (calculate_water_mass_flow s)) = air_specific_heat s"
  by (simp add: calculate_water_mass_flow_def Let_def)

lemma air_mass_flow_result:
  assumes "calculate_air_mass_flow s = Inr (a, s')"
  shows "s' = s\<lparr>air_mass_flow_rate := Some a\<rparr>"
  using assms
  by (auto simp: calculate_air_mass_flow_def split: sum.splits)

subsection \<open>Fin theory\<close>

text \<open>The hyperbolic tangent stays below the identity on the non-negative reals.\<close>

lemma tanh_le_self:
  fixes x :: real
  assumes "0 \<le> x"
  shows "tanh x \<le> x"
proof -
  have "(\<lambda>u. u - tanh u) 0 \<le> (\<lambda>u. u - tanh u) x"
  proof (rule DERIV_nonneg_imp_nondecreasing [OF assms])
    fix u :: real
    assume "0 \<le> u" "u \<le> x"
    have "((\<lambda>u. u - tanh u) has_real_derivative (1 - (1 - tanh u ^ 2))) (at u)"
      by (auto intro!: derivative_eq_intros)
    then show "\<exists>y. ((\<lambda>u. u - tanh u) has_real_derivative y) (at u) \<and> 0 \<le> y"
      by (intro exI [of _ "1 - (1 - tanh u ^ 2)"]) simp
  qed
  then show ?thesis by simp
qed

lemma tanh_over_bounds:
  fixes x :: real
  assumes "0 < x"
  shows "0 < tanh x / x" and "tanh x / x \<le> 1"
  using assms tanh_le_self [of x] by (simp_all add: divide_le_eq)

lemma fin_efficiency_positive:
  assumes "0 < h" "0 < k" "0 < w_mm" "0 < t_mm" "0 < L_mm"
  defines "m \<equiv> sqrt (h * (2 * (w_mm / 1000) + 2 * (t_mm / 1000)) / (k * (w_mm / 1000 * (t_mm / 1000))))"
    and "L_c \<equiv> L_mm / 1000 + t_mm / 1000 / 2"
  shows "fin_efficiency h k w_mm t_mm L_mm = Inr (Num (tanh (m * L_c) / (m * L_c)))"
    and "0 < m * L_c"
proof -
  have q: "0 < h * (2 * (w_mm / 1000) + 2 * (t_mm / 1000)) / (k * (w_mm / 1000 * (t_mm / 1000)))"
    using assms(1-5) by (intro divide_pos_pos mult_pos_pos add_pos_pos) simp_all
  then have m: "0 < m" unfolding m_def by simp
  have L: "0 < L_c" unfolding L_c_def using assms(4,5) by (intro add_pos_pos) simp_all
  show x: "0 < m * L_c" using m L by simp
  have k: "k * (w_mm / 1000 * (t_mm / 1000)) \<noteq> 0" using assms(2-4) by simp
  have "fin_efficiency h k w_mm t_mm L_mm = Inr (np_tanh_over (np_mul (np_sqrt (h * (2 * (w_mm / 1000) + 2 * (t_mm / 1000)) / (k * (w_mm / 1000 * (t_mm / 1000))))) L_c))"
    unfolding fin_efficiency_def Let_def truediv_def L_c_def using k by simp
  also have "np_sqrt (h * (2 * (w_mm / 1000) + 2 * (t_mm / 1000)) / (k * (w_mm / 1000 * (t_mm / 1000)))) = Num m"
    unfolding np_sqrt_def m_def using q by simp
  finally show "fin_efficiency h k w_mm t_mm L_mm = Inr (Num (tanh (m * L_c) / (m * L_c)))"
    using m L by simp
qed

lemma fin_efficiency_returns: "\<exists>eta. calculate_fin_efficiency s = Inr (Num eta)"
  unfolding calculate_fin_efficiency_def
  using fin_efficiency_positive(1) [of "100.0" "401.0" "16.1" "0.11" "3.72"] by simp

text \<open>The script on \<^verbatim>\<open>ThermoFluidProperties()\<close>, up to the solve.\<close>

lemma reference_main:
  "main fsolve =
     and_then (calculate_NTU_from_effectiveness fsolve reference_cached) (\<lambda>ntu.
     and_then (calculate_fin_efficiency reference_cached) (\<lambda>fin_eff.
       Inr \<lparr> out_water_mass = 0.035, out_duty = 146.3, out_air_mass = 146.3 / 17587.5,
             out_C_h = 146.3, out_C_c = 8.36, out_q_actual = 146.3, out_q_max = 183.084,
             out_effectiveness = 146.3 / 183.084, out_ntu = ntu,
             out_UA = np_mul ntu 8.36, out_fin_efficiency = fin_eff \<rparr>))"
proof -
  define s1 where "s1 = (init no_args)\<lparr>water_vol_flow_rate := Some 0.000035,
                                        water_mass_flow_rate := Some 0.035\<rparr>"
  have w: "calculate_water_mass_flow (init no_args) = (0.035, s1)"
    by (simp add: s1_def calculate_water_mass_flow_def Let_def init_def no_args_def)
  have d: "calculate_duty s1 = Inr 146.3"
    by (simp add: s1_def calculate_duty_def init_def no_args_def defaults_simps)
  have a: "calculate_air_mass_flow s1 = Inr (146.3 / 17587.5, reference_state)"
    unfolding calculate_air_mass_flow_def d
    by (simp add: s1_def reference_state_def truediv_def init_def no_args_def defaults_simps)
  have qa: "calculate_actual_heat_transfer reference_cached = Inr (146.3, reference_cached)"
    unfolding calculate_actual_heat_transfer_def reference_cached_rates
    by (simp add: reference_cached_fields)
  have qm: "calculate_max_heat_transfer reference_cached = Inr (183.084, reference_cached)"
    unfolding calculate_max_heat_transfer_def reference_cached_rates
    by (simp add: reference_cached_fields)
  have e: "calculate_effectiveness reference_cached = Inr (146.3 / 183.084, reference_cached)"
    unfolding calculate_effectiveness_def qa
    by (simp add: qm truediv_def)
  show ?thesis
    unfolding main_def main_with_def w
    by (simp add: d a reference_rates qa qm e)
qed

subsection \<open>What the heat-transfer methods return\<close>

lemma with_mass_flows_Inr:
  assumes "with_mass_flows i = Inr s2"
  shows "\<exists>am. s2 = (snd (calculate_water_mass_flow i))\<lparr>air_mass_flow_rate := Some am\<rparr>"
proof -
  obtain m s1 where w: "calculate_water_mass_flow i = (m, s1)"
    by (cases "calculate_water_mass_flow i")
  from assms obtain am where "calculate_air_mass_flow s1 = Inr (am, s2)"
    unfolding with_mass_flows_def w by (auto simp: and_then_Inr_iff)
  from air_mass_flow_result [OF this] show ?thesis by (auto simp: w)
qed

lemma water_mass_flow_fields:
  "water_mass_flow_rate (snd (calculate_water_mass_flow i)) = Some (fst (calculate_water_mass_flow i))"
  "water_specific_heat (snd (calculate_water_mass_flow i)) = water_specific_heat i"
  "water_temp_change (snd (calculate_water_mass_flow i)) = water_temp_change i"
  "air_temp_change (snd (calculate_water_mass_flow i)) = air_temp_change i"
  "T_hot_in (snd (calculate_water_mass_flow i)) = T_hot_in i"
  "T_cold_in (snd (calculate_water_mass_flow i)) = T_cold_in i"
  by (simp_all add: calculate_water_mass_flow_def Let_def)

lemma actual_heat_transfer_value:
  assumes "calculate_actual_heat_transfer s = Inr (q, s')"
  shows "\<exists>mw. water_mass_flow_rate s = Some mw
           \<and> q = mw * water_specific_heat s * 1000 * water_temp_change s"
proof -
  from assms obtain p where hc: "calculate_heat_capacity_rates s = Inr (p, s')"
    and q: "q = fst p * water_temp_change s'"
    by (auto simp: calculate_actual_heat_transfer_def split: sum.splits prod.splits)
  from heat_capacity_rates_Inr [OF hc] obtain mw ma where
    f: "water_mass_flow_rate s = Some mw" "air_mass_flow_rate s = Some ma"
    and ne: "mw * water_specific_heat s * 1000 \<noteq> 0"
    and s': "s' = s\<lparr>cr := Some (ma * air_specific_heat s * 1000 / (mw * water_specific_heat s * 1000)),
                     cmin := Some (min (mw * water_specific_heat s * 1000)
                                       (ma * air_specific_heat s * 1000))\<rparr>"
    by blast
  from hc have "fst p = mw * water_specific_heat s * 1000"
    unfolding heat_capacity_rates_set [OF f ne] by auto
  with q f show ?thesis by (simp add: s')
qed

lemma max_heat_transfer_value:
  assumes "calculate_max_heat_transfer s = Inr (q, s')"
  shows "\<exists>c. cmin s' = Some c \<and> q = c * (T_hot_in s - T_cold_in s)"
proof -
  from assms obtain p c where hc: "calculate_heat_capacity_rates s = Inr (p, s')"
    and c: "cmin s' = Some c" and q: "q = c * (T_hot_in s' - T_cold_in s')"
    by (auto simp: calculate_max_heat_transfer_def split: sum.splits prod.splits option.splits)
  from heat_capacity_rates_Inr [OF hc] have "T_hot_in s' = T_hot_in s" "T_cold_in s' = T_cold_in s"
    by auto
  with c q show ?thesis by simp
qed

lemma effectiveness_Inr_value:
  assumes "calculate_effectiveness s = Inr (e, s')"
  shows "\<exists>mw c. water_mass_flow_rate s = Some mw \<and> cmin s' = Some c
           \<and> e = mw * water_specific_heat s * 1000 * water_temp_change s
                   / (c * (T_hot_in s - T_cold_in s))"
proof -
  from effectiveness_Inr_fields [OF assms] obtain mw ma where
    f: "water_mass_flow_rate s = Some mw" "air_mass_flow_rate s = Some ma"
    and ne: "mw * water_specific_heat s * 1000 \<noteq> 0" by blast
  from assms have "cmin s' = Some (min (mw * water_specific_heat s * 1000)
                              (ma * air_specific_heat s * 1000))"
    and "e = mw * water_specific_heat s * 1000 * water_temp_change s
             / (min (mw * water_specific_heat s * 1000) (ma * air_specific_heat s * 1000)
                * (T_hot_in s - T_cold_in s))"
    unfolding effectiveness_value [OF f ne]
    by (auto simp: truediv_def split: sum.splits if_splits)
  with f show ?thesis by blast
qed

lemma heat_transfers_return:
  assumes "water_mass_flow_rate s = Some mw" and "air_mass_flow_rate s = Some ma"
    and "mw * water_specific_heat s * 1000 \<noteq> 0"
  shows "\<exists>q s3. calculate_actual_heat_transfer s = Inr (q, s3)"
    and "\<exists>q s3. calculate_max_heat_transfer s = Inr (q, s3)"
  unfolding calculate_actual_heat_transfer_def calculate_max_heat_transfer_def
    heat_capacity_rates_set [OF assms]
  by simp_all

lemma with_mass_flows_temperatures:
  "with_mass_flows (init (no_args\<lparr>arg_T_hot_in := Some a, arg_T_hot_out := Some b,
                                  arg_T_cold_in := Some c, arg_T_cold_out := Some d\<rparr>))
     = Inr (reference_state\<lparr>T_hot_in := a, T_hot_out := b, T_cold_in := c, T_cold_out := d\<rparr>)"
  by (simp add: with_mass_flows_def reference_state_def calculate_water_mass_flow_def
      calculate_air_mass_flow_def calculate_duty_def truediv_def init_def no_args_def
      defaults_simps Let_def)

subsection \<open>An instance whose cold rate is the larger one\<close>

lemma cold_larger_cached_fields:
  "water_mass_flow_rate cold_larger_cached = Some 0.035"
  "air_mass_flow_rate cold_larger_cached = Some (146.3 / 502.5)"
  "water_specific_heat cold_larger_cached = 4.18"
  "air_specific_heat cold_larger_cached = 1.005"
  "water_temp_change cold_larger_cached = 1"
  "T_hot_in cold_larger_cached = 47.4"
  "T_cold_in cold_larger_cached = 25.5"
  "cmin cold_larger_cached = Some 146.3"
  "cr cold_larger_cached = Some 2"
  by (simp_all add: cold_larger_cached_def reference_state_fields)

lemma cold_larger_rates:
  "calculate_heat_capacity_rates
     (reference_state\<lparr>air_temp_change := 0.5, air_mass_flow_rate := Some (146.3 / 502.5)\<rparr>)
     = Inr ((146.3, 292.6), cold_larger_cached)"
proof -
  let ?s = "reference_state\<lparr>air_temp_change := 0.5, air_mass_flow_rate := Some (146.3 / 502.5)\<rparr>"
  have f: "water_mass_flow_rate ?s = Some 0.035" "air_mass_flow_rate ?s = Some (146.3 / 502.5)"
    by (simp_all add: reference_state_fields)
  have g: "water_specific_heat ?s = 4.18" "air_specific_heat ?s = 1.005"
    by (simp_all add: reference_state_fields)
  have ne: "0.035 * water_specific_heat ?s * 1000 \<noteq> 0" unfolding g by simp
  show ?thesis
    unfolding heat_capacity_rates_set [OF f ne] g by (simp add: cold_larger_cached_def)
qed

lemma cold_larger_cached_rates:
  "calculate_heat_capacity_rates cold_larger_cached = Inr ((146.3, 292.6), cold_larger_cached)"
  by (rule heat_capacity_rates_idempotent [OF cold_larger_rates])

lemma cold_larger_main:
  "main_with fsolve (init (no_args\<lparr>arg_air_temp_change := Some 0.5\<rparr>)) =
     and_then (calculate_NTU_from_effectiveness fsolve cold_larger_cached) (\<lambda>ntu.
     and_then (calculate_fin_efficiency cold_larger_cached) (\<lambda>fin_eff.
       Inr \<lparr> out_water_mass = 0.035, out_duty = 146.3, out_air_mass = 146.3 / 502.5,
             out_C_h = 146.3, out_C_c = 292.6, out_q_actual = 146.3, out_q_max = 3203.97,
             out_effectiveness = 146.3 / 3203.97, out_ntu = ntu,
             out_UA = np_mul ntu 292.6, out_fin_efficiency = fin_eff \<rparr>))"
proof -
  define s1 where "s1 = (init (no_args\<lparr>arg_air_temp_change := Some 0.5\<rparr>))
      \<lparr>water_vol_flow_rate := Some 0.000035, water_mass_flow_rate := Some 0.035\<rparr>"
  have w: "calculate_water_mass_flow (init (no_args\<lparr>arg_air_temp_change := Some 0.5\<rparr>)) = (0.035, s1)"
    by (simp add: s1_def calculate_water_mass_flow_def Let_def init_def no_args_def)
  have d: "calculate_duty s1 = Inr 146.3"
    by (simp add: s1_def calculate_duty_def init_def no_args_def defaults_simps)
  define s2 where "s2 = reference_state\<lparr>air_temp_change := 0.5,
      air_mass_flow_rate := Some (146.3 / 502.5)\<rparr>"
  have a: "calculate_air_mass_flow s1 = Inr (146.3 / 502.5, s2)"
    unfolding calculate_air_mass_flow_def d
    by (simp add: s1_def s2_def reference_state_def truediv_def init_def no_args_def
        defaults_simps)
  have hc: "calculate_heat_capacity_rates s2 = Inr ((146.3, 292.6), cold_larger_cached)"
    unfolding s2_def by (rule cold_larger_rates)
  have qa: "calculate_actual_heat_transfer cold_larger_cached = Inr (146.3, cold_larger_cached)"
    unfolding calculate_actual_heat_transfer_def cold_larger_cached_rates
    by (simp add: cold_larger_cached_fields)
  have qm: "calculate_max_heat_transfer cold_larger_cached = Inr (3203.97, cold_larger_cached)"
    unfolding calculate_max_heat_transfer_def cold_larger_cached_rates
    by (simp add: cold_larger_cached_fields)
  have e: "calculate_effectiveness cold_larger_cached = Inr (146.3 / 3203.97, cold_larger_cached)"
    unfolding calculate_effectiveness_def qa
    by (simp add: qm truediv_def)
  show ?thesis
    unfolding main_with_def w
    by (simp add: d a hc qa qm e)
qed

lemma cold_larger_residual:
  "\<exists>r. effectiveness_equation cold_larger_cached 1.0 = Inr (Num r)"
proof -
  have a: "(146.3 :: real) = 0.035 * water_specific_heat cold_larger_cached * 1000"
    "(292.6 :: real) = 146.3 / 502.5 * air_specific_heat cold_larger_cached * 1000"
    "(146.3 :: real) \<noteq> 0" "(292.6 :: real) \<noteq> 0"
    "(146.3 :: real) = 146.3 * water_temp_change cold_larger_cached"
    "(3203.97 :: real) = min 146.3 292.6 * (T_hot_in cold_larger_cached - T_cold_in cold_larger_cached)"
    "(3203.97 :: real) \<noteq> 0"
    by (simp_all add: cold_larger_cached_fields)
  show ?thesis
    unfolding effectiveness_equation_value [OF cold_larger_cached_fields(1,2) a] by simp
qed

subsection \<open>The correlation has a root\<close>






text \<open>Every capacity ratio and effectiveness is the one of some state.\<close>

lemma envelope_is_reachable:
  assumes "0 < Cr"
  shows "\<exists>s s'. calculate_effectiveness s = Inr (eps, s') \<and> cr s' = Some Cr"
proof -
  define s where "s = reference_state\<lparr>
      water_mass_flow_rate := Some 1, water_specific_heat := 1 / 1000,
      air_mass_flow_rate := Some Cr, air_specific_heat := 1 / 1000,
      water_temp_change := eps * min 1 Cr, T_hot_in := 1, T_cold_in := 0\<rparr>"
  have f: "water_mass_flow_rate s = Some 1" "air_mass_flow_rate s = Some Cr"
    by (simp_all add: s_def)
  have g: "water_specific_heat s = 1 / 1000" "air_specific_heat s = 1 / 1000"
    "water_temp_change s = eps * min 1 Cr" "T_hot_in s = 1" "T_cold_in s = 0"
    by (simp_all add: s_def)
  have ne: "1 * water_specific_heat s * 1000 \<noteq> 0" unfolding g by simp
  have m: "min 1 Cr \<noteq> 0" using assms by (simp add: min_def)
  have "calculate_effectiveness s = Inr (eps, s\<lparr>cr := Some Cr, cmin := Some (min 1 Cr)\<rparr>)"
    unfolding effectiveness_value [OF f ne] g using m by (simp add: truediv_def)
  then show ?thesis by (intro exI [of _ s] exI [of _ "s\<lparr>cr := Some Cr, cmin := Some (min 1 Cr)\<rparr>"]) simp
qed

section \<open>Construction\<close>

text \<open>
  Claim C10, as stated, fails, in two places. A caller may pass a difference field
  together with a boundary temperature:
  \<^verbatim>\<open>ThermoFluidProperties(T_hot_in=60.0, water_temp_change=13.6)\<close> has a hot inlet
  temperature other than the default and a hot-side temperature change of 13.6, not the
  default-derived 1.0. And not every downstream calculation uses the default
  differences: \<open>calculate_max_heat_transfer\<close> subtracts the stored inlet temperatures,
  so on \<^verbatim>\<open>ThermoFluidProperties(T_cold_in=35.0)\<close> it returns 8.36 * 12.4, where the
  default instance gives 8.36 * 21.9.
\<close>

theorem difference_fields_counterexample:
  "T_hot_in (init (no_args\<lparr>arg_T_hot_in := Some 60.0, arg_water_temp_change := Some 13.6\<rparr>)) = 60.0
   \<and> T_hot_in_default = 47.4
   \<and> water_temp_change (init (no_args\<lparr>arg_T_hot_in := Some 60.0, arg_water_temp_change := Some 13.6\<rparr>)) = 13.6
   \<and> water_temp_change_default = 1.0
   \<and> water_temp_change (init (no_args\<lparr>arg_T_hot_in := Some 60.0, arg_water_temp_change := Some 13.6\<rparr>))
       \<noteq> water_temp_change_default
   \<and> map_sum id fst (and_then (with_mass_flows (init no_args)) calculate_max_heat_transfer)
       = Inr (8.36 * 21.9)
   \<and> map_sum id fst (and_then (with_mass_flows (init (no_args\<lparr>arg_T_cold_in := Some 35.0\<rparr>)))
                                calculate_max_heat_transfer)
       = Inr (8.36 * 12.4)
   \<and> T_hot_in_default - T_cold_in_default = 21.9
   \<and> T_hot_in (init (no_args\<lparr>arg_T_cold_in := Some 35.0\<rparr>))
       - T_cold_in (init (no_args\<lparr>arg_T_cold_in := Some 35.0\<rparr>)) = 12.4"
proof -
  have m: "calculate_max_heat_transfer (reference_state\<lparr>T_cold_in := Tc\<rparr>)
        = Inr (8.36 * (47.4 - Tc), reference_state\<lparr>T_cold_in := Tc, cr := Some (2 / 35), cmin := Some 8.36\<rparr>)"
    for Tc
  proof -
    let ?s = "reference_state\<lparr>T_cold_in := Tc\<rparr>"
    have f: "water_mass_flow_rate ?s = Some 0.035" "air_mass_flow_rate ?s = Some (146.3 / 17587.5)"
      by (simp_all add: reference_state_fields)
    have g: "water_specific_heat ?s = 4.18" "air_specific_heat ?s = 1.005"
      by (simp_all add: reference_state_fields)
    have ne: "0.035 * water_specific_heat ?s * 1000 \<noteq> 0" unfolding g by simp
    show ?thesis
      unfolding calculate_max_heat_transfer_def heat_capacity_rates_set [OF f ne] g
      by (simp add: reference_state_fields)
  qed
  have r: "reference_state = reference_state\<lparr>T_cold_in := 25.5\<rparr>"
    by (simp add: reference_state_def init_def no_args_def T_cold_in_default_def)
  have d: "calculate_max_heat_transfer reference_state
        = Inr (8.36 * (47.4 - 25.5), reference_state\<lparr>T_cold_in := 25.5, cr := Some (2 / 35), cmin := Some 8.36\<rparr>)"
    using m [of "25.5"] r by simp
  have a: "T_hot_in (init (no_args\<lparr>arg_T_hot_in := Some 60.0, arg_water_temp_change := Some 13.6\<rparr>)) = 60.0"
    "T_hot_in_default = 47.4"
    "water_temp_change (init (no_args\<lparr>arg_T_hot_in := Some 60.0, arg_water_temp_change := Some 13.6\<rparr>)) = 13.6"
    "water_temp_change_default = 1.0"
    "water_temp_change (init (no_args\<lparr>arg_T_hot_in := Some 60.0, arg_water_temp_change := Some 13.6\<rparr>))
       \<noteq> water_temp_change_default"
    by (simp_all add: init_def no_args_def defaults_simps T_hot_in_default_def)
  have b: "map_sum id fst (and_then (with_mass_flows (init no_args)) calculate_max_heat_transfer)
       = Inr (8.36 * 21.9)"
    unfolding reference_state_reached by (simp add: d)
  have c: "map_sum id fst (and_then (with_mass_flows (init (no_args\<lparr>arg_T_cold_in := Some 35.0\<rparr>)))
                                calculate_max_heat_transfer)
       = Inr (8.36 * 12.4)"
    unfolding with_mass_flows_cold_in by (simp add: m)
  have e: "T_hot_in_default - T_cold_in_default = 21.9"
    "T_hot_in (init (no_args\<lparr>arg_T_cold_in := Some 35.0\<rparr>))
       - T_cold_in (init (no_args\<lparr>arg_T_cold_in := Some 35.0\<rparr>)) = 12.4"
    by (simp_all add: init_def no_args_def T_hot_in_default_def T_cold_in_default_def)
  from a b c e show ?thesis by blast
qed

text \<open>
  Claim C10, amended. The defaults of \<open>deltaT1\<close>, \<open>deltaT2\<close>, \<open>water_temp_change\<close> and
  \<open>air_temp_change\<close> are computed once from the default temperatures: 4.4, 20.9, 1.0
  and 17.5. For every construction, each of the four fields that the caller does not
  pass holds its default, whatever boundary temperatures are passed, and each that the
  caller passes holds the value passed; the boundary temperatures passed are stored.
  Every downstream calculation that reads a difference field then computes with the
  default: \<open>calculate_duty\<close> and \<open>calculate_actual_heat_transfer\<close> with 1.0,
  \<open>calculate_air_mass_flow\<close> with 1.0 and 17.5, and \<open>calculate_effectiveness\<close> with 1.0
  in its numerator. The one temperature term that is not a difference field,
  \<open>T_hot_in - T_cold_in\<close> in \<open>calculate_max_heat_transfer\<close> and so in the denominator of
  the effectiveness, is taken from the stored inlet temperatures.
\<close>

theorem difference_fields_keep_defaults:
  "(arg_deltaT1 a = None \<longrightarrow> deltaT1 (init a) = 4.4)
   \<and> (arg_deltaT2 a = None \<longrightarrow> deltaT2 (init a) = 20.9)
   \<and> (arg_water_temp_change a = None \<longrightarrow> water_temp_change (init a) = 1.0)
   \<and> (arg_air_temp_change a = None \<longrightarrow> air_temp_change (init a) = 17.5)
   \<and> (\<forall>v. arg_deltaT1 a = Some v \<longrightarrow> deltaT1 (init a) = v)
   \<and> (\<forall>v. arg_deltaT2 a = Some v \<longrightarrow> deltaT2 (init a) = v)
   \<and> (\<forall>v. arg_water_temp_change a = Some v \<longrightarrow> water_temp_change (init a) = v)
   \<and> (\<forall>v. arg_air_temp_change a = Some v \<longrightarrow> air_temp_change (init a) = v)
   \<and> T_hot_in (init a) = supplied_or 47.4 (arg_T_hot_in a)
   \<and> T_hot_out (init a) = supplied_or 46.4 (arg_T_hot_out a)
   \<and> T_cold_in (init a) = supplied_or 25.5 (arg_T_cold_in a)
   \<and> T_cold_out (init a) = supplied_or 43.0 (arg_T_cold_out a)
   \<and> (let m = fst (calculate_water_mass_flow (init a));
           s1 = snd (calculate_water_mass_flow (init a));
           C_h = m * water_specific_heat (init a) * 1000
       in (arg_water_temp_change a = None \<longrightarrow>
             calculate_duty s1 = Inr (m * water_specific_heat (init a) * 1.0 * 1000)
           \<and> (\<forall>s2 q s3. with_mass_flows (init a) = Inr s2
                  \<and> calculate_actual_heat_transfer s2 = Inr (q, s3) \<longrightarrow> q = C_h * 1.0)
           \<and> (\<forall>s2 e s3. with_mass_flows (init a) = Inr s2
                  \<and> calculate_effectiveness s2 = Inr (e, s3) \<longrightarrow>
                    (\<exists>c. cmin s3 = Some c
                       \<and> e = C_h * 1.0 / (c * (T_hot_in (init a) - T_cold_in (init a))))))
        \<and> (arg_water_temp_change a = None \<and> arg_air_temp_change a = None \<longrightarrow>
             map_sum id fst (calculate_air_mass_flow s1) =
               truediv (m * water_specific_heat (init a) * 1.0 * 1000)
                       (air_specific_heat (init a) * 17.5 * 1000))
        \<and> (\<forall>s2 q s3. with_mass_flows (init a) = Inr s2
                  \<and> calculate_max_heat_transfer s2 = Inr (q, s3) \<longrightarrow>
                    (\<exists>c. cmin s3 = Some c
                       \<and> q = c * (T_hot_in (init a) - T_cold_in (init a)))))"
proof -
  let ?i = "init a"
  let ?m = "fst (calculate_water_mass_flow ?i)"
  let ?s1 = "snd (calculate_water_mass_flow ?i)"
  have fields:
    "arg_deltaT1 a = None \<longrightarrow> deltaT1 ?i = 4.4"
    "arg_deltaT2 a = None \<longrightarrow> deltaT2 ?i = 20.9"
    "arg_water_temp_change a = None \<longrightarrow> water_temp_change ?i = 1.0"
    "arg_air_temp_change a = None \<longrightarrow> air_temp_change ?i = 17.5"
    "\<forall>v. arg_deltaT1 a = Some v \<longrightarrow> deltaT1 ?i = v"
    "\<forall>v. arg_deltaT2 a = Some v \<longrightarrow> deltaT2 ?i = v"
    "\<forall>v. arg_water_temp_change a = Some v \<longrightarrow> water_temp_change ?i = v"
    "\<forall>v. arg_air_temp_change a = Some v \<longrightarrow> air_temp_change ?i = v"
    "T_hot_in ?i = supplied_or 47.4 (arg_T_hot_in a)"
    "T_hot_out ?i = supplied_or 46.4 (arg_T_hot_out a)"
    "T_cold_in ?i = supplied_or 25.5 (arg_T_cold_in a)"
    "T_cold_out ?i = supplied_or 43.0 (arg_T_cold_out a)"
    by (simp_all add: init_def defaults_simps T_hot_in_default_def T_hot_out_default_def
        T_cold_in_default_def T_cold_out_default_def)
  have s2_fields: "water_mass_flow_rate s2 = Some ?m \<and> water_specific_heat s2 = water_specific_heat ?i
      \<and> water_temp_change s2 = water_temp_change ?i
      \<and> T_hot_in s2 = T_hot_in ?i \<and> T_cold_in s2 = T_cold_in ?i"
    if "with_mass_flows ?i = Inr s2" for s2
    using with_mass_flows_Inr [OF that] by (auto simp: water_mass_flow_fields)
  have duty: "calculate_duty ?s1 = Inr (?m * water_specific_heat ?i * water_temp_change ?i * 1000)"
    by (simp add: calculate_duty_def water_mass_flow_fields)
  have air: "map_sum id fst (calculate_air_mass_flow ?s1) =
      truediv (?m * water_specific_heat ?i * water_temp_change ?i * 1000)
              (air_specific_heat ?i * air_temp_change ?i * 1000)"
    unfolding calculate_air_mass_flow_def duty
    by (simp add: water_mass_flow_fields water_mass_flow_frame split: sum.splits)
  have act: "q = ?m * water_specific_heat ?i * 1000 * water_temp_change ?i"
    if "with_mass_flows ?i = Inr s2" "calculate_actual_heat_transfer s2 = Inr (q, s3)" for s2 q s3
    using actual_heat_transfer_value [OF that(2)] s2_fields [OF that(1)] by auto
  have eff: "\<exists>c. cmin s3 = Some c
       \<and> e = ?m * water_specific_heat ?i * 1000 * water_temp_change ?i
               / (c * (T_hot_in ?i - T_cold_in ?i))"
    if "with_mass_flows ?i = Inr s2" "calculate_effectiveness s2 = Inr (e, s3)" for s2 e s3
    using effectiveness_Inr_value [OF that(2)] s2_fields [OF that(1)] by auto
  have mx: "\<exists>c. cmin s3 = Some c \<and> q = c * (T_hot_in ?i - T_cold_in ?i)"
    if "with_mass_flows ?i = Inr s2" "calculate_max_heat_transfer s2 = Inr (q, s3)" for s2 q s3
    using max_heat_transfer_value [OF that(2)] s2_fields [OF that(1)] by auto
  have w: "water_temp_change ?i = 1" if "arg_water_temp_change a = None"
    using fields(3) that by simp
  have c: "air_temp_change ?i = 17.5" if "arg_air_temp_change a = None"
    using fields(4) that by simp
  have d1: "arg_water_temp_change a = None \<longrightarrow>
             calculate_duty ?s1 = Inr (?m * water_specific_heat ?i * 1.0 * 1000)
           \<and> (\<forall>s2 q s3. with_mass_flows ?i = Inr s2
                  \<and> calculate_actual_heat_transfer s2 = Inr (q, s3) \<longrightarrow>
                    q = ?m * water_specific_heat ?i * 1000 * 1.0)
           \<and> (\<forall>s2 e s3. with_mass_flows ?i = Inr s2
                  \<and> calculate_effectiveness s2 = Inr (e, s3) \<longrightarrow>
                    (\<exists>c. cmin s3 = Some c
                       \<and> e = ?m * water_specific_heat ?i * 1000 * 1.0
                               / (c * (T_hot_in ?i - T_cold_in ?i))))"
  proof (intro conjI impI allI)
    assume n: "arg_water_temp_change a = None"
    show "calculate_duty ?s1 = Inr (?m * water_specific_heat ?i * 1.0 * 1000)"
      unfolding duty w [OF n] by simp
  next
    fix s2 q s3
    assume n: "arg_water_temp_change a = None"
      and h: "with_mass_flows ?i = Inr s2 \<and> calculate_actual_heat_transfer s2 = Inr (q, s3)"
    from h have "q = ?m * water_specific_heat ?i * 1000 * water_temp_change ?i"
      by (intro act [of s2 q s3]) simp_all
    then show "q = ?m * water_specific_heat ?i * 1000 * 1.0" unfolding w [OF n] by simp
  next
    fix s2 e s3
    assume n: "arg_water_temp_change a = None"
      and h: "with_mass_flows ?i = Inr s2 \<and> calculate_effectiveness s2 = Inr (e, s3)"
    from h have "\<exists>c. cmin s3 = Some c
       \<and> e = ?m * water_specific_heat ?i * 1000 * water_temp_change ?i
               / (c * (T_hot_in ?i - T_cold_in ?i))"
      by (intro eff [of s2 e s3]) simp_all
    then show "\<exists>c. cmin s3 = Some c
                       \<and> e = ?m * water_specific_heat ?i * 1000 * 1.0
                               / (c * (T_hot_in ?i - T_cold_in ?i))"
      unfolding w [OF n] by simp
  qed
  have d2: "arg_water_temp_change a = None \<and> arg_air_temp_change a = None \<longrightarrow>
             map_sum id fst (calculate_air_mass_flow ?s1) =
               truediv (?m * water_specific_heat ?i * 1.0 * 1000)
                       (air_specific_heat ?i * 17.5 * 1000)"
  proof
    assume n: "arg_water_temp_change a = None \<and> arg_air_temp_change a = None"
    then have w1: "water_temp_change ?i = 1" and c1: "air_temp_change ?i = 17.5"
      using w c by simp_all
    show "map_sum id fst (calculate_air_mass_flow ?s1) =
               truediv (?m * water_specific_heat ?i * 1.0 * 1000)
                       (air_specific_heat ?i * 17.5 * 1000)"
      unfolding air w1 c1 by simp
  qed
  have d3: "\<forall>s2 q s3. with_mass_flows ?i = Inr s2
                  \<and> calculate_max_heat_transfer s2 = Inr (q, s3) \<longrightarrow>
                    (\<exists>c. cmin s3 = Some c \<and> q = c * (T_hot_in ?i - T_cold_in ?i))"
  proof (intro allI impI)
    fix s2 q s3
    assume h: "with_mass_flows ?i = Inr s2 \<and> calculate_max_heat_transfer s2 = Inr (q, s3)"
    then show "\<exists>c. cmin s3 = Some c \<and> q = c * (T_hot_in ?i - T_cold_in ?i)"
      by (intro mx [of s2 q s3]) simp_all
  qed
  show ?thesis
    unfolding Let_def by (intro conjI fields d1 d2 d3)
qed

text \<open>
  \<^verbatim>\<open>ThermoFluidProperties(T_hot_in=60.0, T_hot_out=50.0, T_cold_in=20.0, T_cold_out=40.0)\<close>:
  the hot side drops by 10 degrees, the fields still say 1.0 and 17.5, the duty, the air
  mass flow rate and the actual heat transfer are those of the default run, and the
  maximum heat transfer is 8.36 * (60 - 20). With \<^verbatim>\<open>water_temp_change=13.6\<close> passed, the
  field is 13.6.
\<close>

theorem difference_fields_keep_defaults_witness:
  "(let a = no_args\<lparr>arg_T_hot_in := Some 60.0, arg_T_hot_out := Some 50.0,
                     arg_T_cold_in := Some 20.0, arg_T_cold_out := Some 40.0\<rparr>
    in T_hot_in (init a) = 60.0 \<and> T_hot_out (init a) = 50.0
     \<and> T_cold_in (init a) = 20.0 \<and> T_cold_out (init a) = 40.0
     \<and> deltaT1 (init a) = 4.4 \<and> deltaT2 (init a) = 20.9
     \<and> water_temp_change (init a) = 1.0 \<and> air_temp_change (init a) = 17.5
     \<and> calculate_duty (snd (calculate_water_mass_flow (init a))) = Inr 146.3
     \<and> map_sum id fst (calculate_air_mass_flow (snd (calculate_water_mass_flow (init a))))
         = Inr (146.3 / 17587.5)
     \<and> map_sum id fst (and_then (with_mass_flows (init a)) calculate_actual_heat_transfer)
         = Inr 146.3
     \<and> map_sum id fst (and_then (with_mass_flows (init a)) calculate_max_heat_transfer)
         = Inr (8.36 * (60.0 - 20.0))
     \<and> map_sum id fst (and_then (with_mass_flows (init a)) calculate_effectiveness)
         = Inr (146.3 / (8.36 * (60.0 - 20.0))))
   \<and> water_temp_change (init (no_args\<lparr>arg_T_hot_in := Some 60.0,
                                        arg_water_temp_change := Some 13.6\<rparr>)) = 13.6"
proof -
  let ?a = "no_args\<lparr>arg_T_hot_in := Some 60.0, arg_T_hot_out := Some 50.0,
                     arg_T_cold_in := Some 20.0, arg_T_cold_out := Some 40.0\<rparr>"
  define z where "z = reference_state\<lparr>T_hot_in := 60.0, T_hot_out := 50.0,
                                         T_cold_in := 20.0, T_cold_out := 40.0\<rparr>"
  let ?b = "no_args\<lparr>arg_T_hot_in := Some 60.0, arg_water_temp_change := Some 13.6\<rparr>"
  have n: "arg_deltaT1 ?a = None" "arg_deltaT2 ?a = None"
    "arg_water_temp_change ?a = None" "arg_air_temp_change ?a = None"
    "arg_T_hot_in ?a = Some 60.0" "arg_T_hot_out ?a = Some 50.0"
    "arg_T_cold_in ?a = Some 20.0" "arg_T_cold_out ?a = Some 40.0"
    by (simp_all add: no_args_def)
  note t = difference_fields_keep_defaults [of ?a, unfolded Let_def]
  from t n have fields: "deltaT1 (init ?a) = 4.4" "deltaT2 (init ?a) = 20.9"
    "water_temp_change (init ?a) = 1.0" "air_temp_change (init ?a) = 17.5"
    "T_hot_in (init ?a) = 60.0" "T_hot_out (init ?a) = 50.0"
    "T_cold_in (init ?a) = 20.0" "T_cold_out (init ?a) = 40.0"
    by simp_all
  have w: "fst (calculate_water_mass_flow (init ?a)) = 0.035" "water_specific_heat (init ?a) = 4.18"
    "air_specific_heat (init ?a) = 1.005"
    by (simp_all add: calculate_water_mass_flow_def init_def no_args_def Let_def)
  from t n(3) have "calculate_duty (snd (calculate_water_mass_flow (init ?a)))
      = Inr (fst (calculate_water_mass_flow (init ?a)) * water_specific_heat (init ?a) * 1.0 * 1000)"
    by blast
  then have duty: "calculate_duty (snd (calculate_water_mass_flow (init ?a))) = Inr 146.3"
    unfolding w by simp
  from t n(3,4) have "map_sum id fst (calculate_air_mass_flow (snd (calculate_water_mass_flow (init ?a))))
      = truediv (fst (calculate_water_mass_flow (init ?a)) * water_specific_heat (init ?a) * 1.0 * 1000)
                (air_specific_heat (init ?a) * 17.5 * 1000)"
    by blast
  then have air: "map_sum id fst (calculate_air_mass_flow (snd (calculate_water_mass_flow (init ?a))))
         = Inr (146.3 / 17587.5)"
    unfolding w by (simp add: truediv_def)
  have z: "with_mass_flows (init ?a) = Inr z"
    unfolding z_def by (rule with_mass_flows_temperatures)
  have f: "water_mass_flow_rate z = Some 0.035" "air_mass_flow_rate z = Some (146.3 / 17587.5)"
    by (simp_all add: z_def reference_state_fields)
  have g: "water_specific_heat z = 4.18" "air_specific_heat z = 1.005"
    "water_temp_change z = 1" "T_hot_in z = 60.0" "T_cold_in z = 20.0"
    by (simp_all add: z_def reference_state_fields)
  have ne: "0.035 * water_specific_heat z * 1000 \<noteq> 0" unfolding g by simp
  from heat_transfers_return [OF f ne] obtain qa sa qm sm where
    qa: "calculate_actual_heat_transfer z = Inr (qa, sa)"
    and qm: "calculate_max_heat_transfer z = Inr (qm, sm)" by blast
  have "calculate_effectiveness z = Inr (146.3 / (8.36 * (60.0 - 20.0)),
      z\<lparr>cr := Some (146.3 / 17587.5 * 1.005 * 1000 / (0.035 * 4.18 * 1000)),
         cmin := Some (min (0.035 * 4.18 * 1000) (146.3 / 17587.5 * 1.005 * 1000))\<rparr>)"
    unfolding effectiveness_value [OF f ne] g by (simp add: truediv_def)
  then obtain e se where ef: "calculate_effectiveness z = Inr (e, se)" by blast
  from t n(3) z qa have "qa = fst (calculate_water_mass_flow (init ?a)) * water_specific_heat (init ?a) * 1000 * 1.0"
    by blast
  then have qa_v: "qa = 146.3" unfolding w by simp
  have sm: "cmin sm = Some 8.36"
    using qm unfolding calculate_max_heat_transfer_def heat_capacity_rates_set [OF f ne] g
    by auto
  from t z qm obtain c where c: "cmin sm = Some c"
    "qm = c * (T_hot_in (init ?a) - T_cold_in (init ?a))"
    by blast
  from c(1) sm have "c = 8.36" by simp
  with c(2) have qm_v: "qm = 8.36 * (60.0 - 20.0)" unfolding fields by simp
  have se: "cmin se = Some 8.36"
    using ef unfolding effectiveness_value [OF f ne] g
    by (auto simp: truediv_def split: if_splits)
  from t n(3) z ef obtain c' where c': "cmin se = Some c'"
    "e = fst (calculate_water_mass_flow (init ?a)) * water_specific_heat (init ?a) * 1000 * 1.0
           / (c' * (T_hot_in (init ?a) - T_cold_in (init ?a)))"
    by blast
  from c'(1) se have "c' = 8.36" by simp
  with c'(2) have e_v: "e = 146.3 / (8.36 * (60.0 - 20.0))" unfolding fields w by simp
  have other: "water_temp_change (init ?b) = 13.6"
  proof -
    have "arg_water_temp_change ?b = Some 13.6" by (simp add: no_args_def)
    with difference_fields_keep_defaults [of ?b] show ?thesis by blast
  qed
  have down: "map_sum id fst (and_then (with_mass_flows (init ?a)) calculate_actual_heat_transfer)
         = Inr 146.3"
    "map_sum id fst (and_then (with_mass_flows (init ?a)) calculate_max_heat_transfer)
         = Inr (8.36 * (60.0 - 20.0))"
    "map_sum id fst (and_then (with_mass_flows (init ?a)) calculate_effectiveness)
         = Inr (146.3 / (8.36 * (60.0 - 20.0)))"
    unfolding z using qa qm ef unfolding qa_v qm_v e_v by simp_all
  show ?thesis
    unfolding Let_def by (intro conjI fields duty air down other)
qed

section \<open>Mass flow rates and duty\<close>

text \<open>
  Claim C6. On the default instance (2.10 L/min, density 1000, water specific heat 4.18,
  hot-side temperature change 47.4 - 46.4), \<open>calculate_water_mass_flow\<close> returns
  0.035 kg/s, which is 2.10 * (1/1000) * (1/60) * 1000, and \<open>calculate_duty\<close> on the
  state it leaves returns 146.3 W. In the real arithmetic of the model both values are
  exact.
\<close>

theorem reference_mass_flow_and_duty:
  "fst (calculate_water_mass_flow (init no_args)) = 0.035 \<and>
   fst (calculate_water_mass_flow (init no_args)) = 2.10 * (1 / 1000) * (1 / 60) * 1000 \<and>
   calculate_duty (snd (calculate_water_mass_flow (init no_args))) = Inr 146.3"
  by (simp add: calculate_water_mass_flow_def calculate_duty_def init_def no_args_def
      Let_def defaults_simps)

text \<open>
  Claim C2, as stated, fails. With a zero cold-side temperature change and the hot mass
  flow rate computed, \<open>calculate_air_mass_flow\<close> ends in Python's own
  \<^verbatim>\<open>ZeroDivisionError\<close>, an \<^verbatim>\<open>ArithmeticError\<close> raised by the division and not caught; called
  on a fresh instance it ends in \<^verbatim>\<open>TypeError\<close> before any division.
\<close>

theorem air_mass_flow_counterexample:
  "calculate_air_mass_flow
     (snd (calculate_water_mass_flow (init (no_args\<lparr>arg_air_temp_change := Some 0\<rparr>))))
     = Inl ZeroDivisionError
   \<and> is_ArithmeticError ZeroDivisionError
   \<and> calculate_air_mass_flow (init (no_args\<lparr>arg_air_temp_change := Some 0\<rparr>)) = Inl TypeError"
  by (simp add: calculate_air_mass_flow_def calculate_duty_def calculate_water_mass_flow_def
      truediv_def init_def no_args_def Let_def)

text \<open>
  Claim C2, amended. For every state whose \<open>air_temp_change\<close> is zero,
  \<open>calculate_air_mass_flow\<close> fails: with \<^verbatim>\<open>ZeroDivisionError\<close> when the hot mass flow rate
  is set, with \<^verbatim>\<open>TypeError\<close> when it is still \<^verbatim>\<open>None\<close>. It never returns a value.
\<close>

theorem air_mass_flow_zero_change:
  assumes "air_temp_change s = 0"
  shows "calculate_air_mass_flow s =
           Inl (if water_mass_flow_rate s = None then TypeError else ZeroDivisionError)"
  using assms
  by (simp add: calculate_air_mass_flow_def calculate_duty_def truediv_def split: option.splits)

text \<open>The reference state with the cold-side temperature change set to zero.\<close>

theorem air_mass_flow_zero_change_witness:
  "air_temp_change (reference_state\<lparr>air_temp_change := 0\<rparr>) = 0
   \<and> calculate_air_mass_flow (reference_state\<lparr>air_temp_change := 0\<rparr>) = Inl ZeroDivisionError"
  using air_mass_flow_zero_change [of "reference_state\<lparr>air_temp_change := 0\<rparr>"]
  by (simp add: reference_state_fields)

section \<open>Capacity rates\<close>

text \<open>
  Claim C4. For every state whose hot and cold capacity rates are positive,
  \<open>calculate_heat_capacity_rates\<close> returns the pair \<open>(C_h, C_c)\<close>, the hot and the cold
  mass flow rate times the specific heat times 1000, and the state it leaves has
  \<open>cmin = min C_h C_c\<close>.
\<close>

theorem cmin_is_min:
  assumes "water_mass_flow_rate s = Some mw" and "air_mass_flow_rate s = Some ma"
    and "0 < mw * water_specific_heat s * 1000" and "0 < ma * air_specific_heat s * 1000"
  shows "\<exists>C_h C_c s'. calculate_heat_capacity_rates s = Inr ((C_h, C_c), s')
           \<and> C_h = mw * water_specific_heat s * 1000
           \<and> C_c = ma * air_specific_heat s * 1000
           \<and> cmin s' = Some (min C_h C_c)"
proof -
  from assms(3) have "mw * water_specific_heat s * 1000 \<noteq> 0" by linarith
  from heat_capacity_rates_set [OF assms(1,2) this] show ?thesis by simp
qed

text \<open>On the reference state the rates are 146.3 and 8.36 W/K, and \<open>cmin\<close> is 8.36.\<close>

theorem cmin_is_min_witness:
  "\<exists>C_h C_c s'. calculate_heat_capacity_rates reference_state = Inr ((C_h, C_c), s')
     \<and> C_h = 146.3 \<and> C_c = 8.36 \<and> cmin s' = Some (min C_h C_c) \<and> cmin s' = Some 8.36"
proof -
  have pos: "0 < 0.035 * water_specific_heat reference_state * 1000"
    "0 < 146.3 / 17587.5 * air_specific_heat reference_state * 1000"
    by (simp_all add: reference_state_fields)
  from cmin_is_min [OF reference_state_fields(1,2) pos]
  obtain C_h C_c s' where r: "calculate_heat_capacity_rates reference_state = Inr ((C_h, C_c), s')"
    "C_h = 0.035 * water_specific_heat reference_state * 1000"
    "C_c = 146.3 / 17587.5 * air_specific_heat reference_state * 1000"
    "cmin s' = Some (min C_h C_c)"
    by blast
  have v: "C_h = 146.3" "C_c = 8.36"
    using r(2,3) by (simp_all add: reference_state_fields)
  have "min C_h C_c = 8.36" unfolding v by simp
  with r(1,4) v show ?thesis
    by (intro exI [of _ C_h] exI [of _ C_c] exI [of _ s']) simp
qed

text \<open>
  Claim C8. For every state with both mass flow rates set and \<open>C_h\<close> nonzero,
  \<open>calculate_heat_capacity_rates\<close> returns and leaves \<open>cr = C_c / C_h\<close>: cold over hot,
  whichever of the two is the smaller.
\<close>

theorem cr_is_cold_over_hot:
  assumes "water_mass_flow_rate s = Some mw" and "air_mass_flow_rate s = Some ma"
    and "mw * water_specific_heat s * 1000 \<noteq> 0"
  shows "\<exists>C_h C_c s'. calculate_heat_capacity_rates s = Inr ((C_h, C_c), s')
           \<and> C_h = mw * water_specific_heat s * 1000
           \<and> C_c = ma * air_specific_heat s * 1000
           \<and> cr s' = Some (C_c / C_h)"
  using heat_capacity_rates_set [OF assms] by simp

text \<open>
  A state whose cold rate is the larger one (hot 146.3, cold 292.6): the ratio is 2, not
  the ratio of the smaller to the larger rate.
\<close>

theorem cr_is_cold_over_hot_witness:
  "\<exists>C_h C_c s'.
     calculate_heat_capacity_rates (reference_state\<lparr>air_mass_flow_rate := Some (146.3 / 502.5)\<rparr>)
       = Inr ((C_h, C_c), s')
     \<and> C_h = 146.3 \<and> C_c = 292.6 \<and> cr s' = Some (C_c / C_h) \<and> cr s' = Some 2
     \<and> cmin s' = Some C_h"
proof -
  let ?s = "reference_state\<lparr>air_mass_flow_rate := Some (146.3 / 502.5)\<rparr>"
  have f: "water_mass_flow_rate ?s = Some 0.035" "air_mass_flow_rate ?s = Some (146.3 / 502.5)"
    by (simp_all add: reference_state_fields)
  have g: "water_specific_heat ?s = 4.18" "air_specific_heat ?s = 1.005"
    by (simp_all add: reference_state_fields)
  have ne: "0.035 * water_specific_heat ?s * 1000 \<noteq> 0"
    by (simp add: reference_state_fields)
  from cr_is_cold_over_hot [OF f ne]
  obtain C_h C_c s' where r: "calculate_heat_capacity_rates ?s = Inr ((C_h, C_c), s')"
    "C_h = 0.035 * water_specific_heat ?s * 1000"
    "C_c = 146.3 / 502.5 * air_specific_heat ?s * 1000" "cr s' = Some (C_c / C_h)"
    by blast
  have v: "C_h = 146.3" "C_c = 292.6"
    using r(2,3) unfolding g by simp_all
  have m: "min C_h C_c = C_h" "C_c / C_h = 2" unfolding v by simp_all
  have "s' = ?s\<lparr>cr := Some (C_c / C_h), cmin := Some (min C_h C_c)\<rparr>"
    using r(1) unfolding heat_capacity_rates_set [OF f ne] r(2,3) by simp
  then have "cmin s' = Some C_h" by (simp add: m)
  with r(1,4) v m show ?thesis
    by (intro exI [of _ C_h] exI [of _ C_c] exI [of _ s']) simp
qed

section \<open>Effectiveness\<close>

text \<open>
  Claim C1, as stated, fails. \<^verbatim>\<open>ThermoFluidProperties(T_cold_in=35.0)\<close>, with both mass flow
  rates computed, has positive inputs and a hot inlet warmer than the cold inlet;
  \<open>calculate_effectiveness\<close> returns 175/124, which is above 1. With
  \<^verbatim>\<open>T_cold_in=47.4\<close>, equal to the hot inlet temperature, \<open>q_max\<close> is zero and the
  method ends in Python's own \<^verbatim>\<open>ZeroDivisionError\<close>.
\<close>

theorem effectiveness_counterexample:
  "map_sum id fst (and_then (with_mass_flows (init (no_args\<lparr>arg_T_cold_in := Some 35.0\<rparr>)))
                            calculate_effectiveness) = Inr (175 / 124)
   \<and> \<not> (175 / 124 \<le> (1 :: real))
   \<and> and_then (with_mass_flows (init (no_args\<lparr>arg_T_cold_in := Some 47.4\<rparr>)))
               calculate_effectiveness = Inl ZeroDivisionError
   \<and> is_ArithmeticError ZeroDivisionError"
  by (simp add: with_mass_flows_cold_in effectiveness_cold_in truediv_def)

text \<open>
  Claim C1, amended. For every state with both mass flow rates set and \<open>C_h\<close> nonzero,
  with \<open>q_actual = C_h * water_temp_change\<close> and
  \<open>q_max = min C_h C_c * (T_hot_in - T_cold_in)\<close>: when \<open>q_max\<close> is zero,
  \<open>calculate_effectiveness\<close> fails with \<^verbatim>\<open>ZeroDivisionError\<close>; otherwise it returns
  \<open>q_actual / q_max\<close>, unchecked; and the value returned lies in the interval from 0
  (excluded) to 1 whenever \<open>0 < q_actual \<le> q_max\<close>.
\<close>

theorem effectiveness_unchecked:
  assumes "water_mass_flow_rate s = Some mw" and "air_mass_flow_rate s = Some ma"
    and "C_h = mw * water_specific_heat s * 1000" and "C_c = ma * air_specific_heat s * 1000"
    and "C_h \<noteq> 0"
    and "q_actual = C_h * water_temp_change s"
    and "q_max = min C_h C_c * (T_hot_in s - T_cold_in s)"
  shows "(q_max = 0 \<longrightarrow> calculate_effectiveness s = Inl ZeroDivisionError)
       \<and> (q_max \<noteq> 0 \<longrightarrow> (\<exists>s'. calculate_effectiveness s = Inr (q_actual / q_max, s')))
       \<and> (0 < q_actual \<and> q_actual \<le> q_max \<longrightarrow>
            (\<exists>eps s'. calculate_effectiveness s = Inr (eps, s') \<and> 0 < eps \<and> eps \<le> 1))"
proof -
  have ne: "mw * water_specific_heat s * 1000 \<noteq> 0" using assms(3,5) by simp
  note v = effectiveness_value [OF assms(1,2) ne, folded assms(3,4), folded assms(6,7)]
  have 1: "q_max = 0 \<longrightarrow> calculate_effectiveness s = Inl ZeroDivisionError"
    unfolding v by (simp add: truediv_def)
  have 2: "q_max \<noteq> 0 \<longrightarrow> (\<exists>s'. calculate_effectiveness s = Inr (q_actual / q_max, s'))"
    unfolding v by (simp add: truediv_def)
  have 3: "0 < q_actual \<and> q_actual \<le> q_max \<longrightarrow>
            (\<exists>eps s'. calculate_effectiveness s = Inr (eps, s') \<and> 0 < eps \<and> eps \<le> 1)"
  proof
    assume h: "0 < q_actual \<and> q_actual \<le> q_max"
    then have "q_max \<noteq> 0" "0 < q_actual / q_max" "q_actual / q_max \<le> 1" by simp_all
    with 2 show "\<exists>eps s'. calculate_effectiveness s = Inr (eps, s') \<and> 0 < eps \<and> eps \<le> 1"
      by blast
  qed
  from 1 2 3 show ?thesis by blast
qed

text \<open>
  The reference state (\<open>q_actual = 146.3\<close>, \<open>q_max = 183.084\<close>) for the two branches
  that return, the same state with equal inlet temperatures for the one that fails.
\<close>

theorem effectiveness_unchecked_witness:
  "(\<exists>s'. calculate_effectiveness reference_state = Inr (146.3 / 183.084, s'))
   \<and> (\<exists>eps s'. calculate_effectiveness reference_state = Inr (eps, s') \<and> 0 < eps \<and> eps \<le> 1)
   \<and> calculate_effectiveness (reference_state\<lparr>T_cold_in := 47.4\<rparr>) = Inl ZeroDivisionError"
proof -
  have a: "(146.3 :: real) = 0.035 * water_specific_heat reference_state * 1000"
    "(8.36 :: real) = 146.3 / 17587.5 * air_specific_heat reference_state * 1000"
    "(146.3 :: real) \<noteq> 0"
    "(146.3 :: real) = 146.3 * water_temp_change reference_state"
    "(183.084 :: real) = min 146.3 8.36 * (T_hot_in reference_state - T_cold_in reference_state)"
    by (simp_all add: reference_state_fields)
  from effectiveness_unchecked [OF reference_state_fields(1,2) a]
  have 1: "(\<exists>s'. calculate_effectiveness reference_state = Inr (146.3 / 183.084, s'))
   \<and> (\<exists>eps s'. calculate_effectiveness reference_state = Inr (eps, s') \<and> 0 < eps \<and> eps \<le> 1)"
    by simp
  let ?z = "reference_state\<lparr>T_cold_in := 47.4\<rparr>"
  have f: "water_mass_flow_rate ?z = Some 0.035" "air_mass_flow_rate ?z = Some (146.3 / 17587.5)"
    by (simp_all add: reference_state_fields)
  have b: "(146.3 :: real) = 0.035 * water_specific_heat ?z * 1000"
    "(8.36 :: real) = 146.3 / 17587.5 * air_specific_heat ?z * 1000"
    "(146.3 :: real) \<noteq> 0"
    "(146.3 :: real) = 146.3 * water_temp_change ?z"
    "(0 :: real) = min 146.3 8.36 * (T_hot_in ?z - T_cold_in ?z)"
    by (simp_all add: reference_state_fields)
  from effectiveness_unchecked [OF f b]
  have 2: "calculate_effectiveness ?z = Inl ZeroDivisionError" by simp
  from 1 2 show ?thesis by blast
qed

section \<open>The NTU solve\<close>

text \<open>
  Claim C3, as stated, fails. On \<^verbatim>\<open>ThermoFluidProperties(T_cold_in=35.0)\<close> with both mass
  flow rates computed, the residual is negative at every non-negative NTU
  (\<open>cold_in_35_residual\<close>), so no root finder converges. With one that stops and hands
  back -1, or \<^verbatim>\<open>nan\<close>, as its last iterate, \<open>calculate_NTU_from_effectiveness\<close> returns
  that value to its caller.
\<close>

theorem ntu_counterexample:
  "with_mass_flows (init (no_args\<lparr>arg_T_cold_in := Some 35.0\<rparr>)) = Inr (reference_state\<lparr>T_cold_in := 35.0\<rparr>)
   \<and> calculate_NTU_from_effectiveness (gives_up_with (Num (- 1))) (reference_state\<lparr>T_cold_in := 35.0\<rparr>)
       = Inr (Num (- 1))
   \<and> calculate_NTU_from_effectiveness (gives_up_with NaN) (reference_state\<lparr>T_cold_in := 35.0\<rparr>)
       = Inr NaN"
proof -
  from cold_in_35_residual [of "1.0"] obtain r where
    "effectiveness_equation (reference_state\<lparr>T_cold_in := 35.0\<rparr>) 1.0 = Inr (Num r)" by auto
  then show ?thesis
    by (simp add: calculate_NTU_from_effectiveness_def gives_up_with_def with_mass_flows_cold_in)
qed

text \<open>
  Claim C3, amended. \<open>calculate_NTU_from_effectiveness\<close> makes no check of its own: for
  every root finder and every state it returns the first element of what the root
  finder, seeded at 1.0, returns for the residual \<open>effectiveness_equation\<close>, whatever
  its sign or finiteness; it fails only with the exception the root finder lets
  through, or with \<^verbatim>\<open>IndexError\<close> on an empty result.
\<close>

theorem ntu_passes_solver_output:
  "(\<forall>v vs. fsolve (effectiveness_equation s) 1.0 = Inr (v # vs) \<longrightarrow>
        calculate_NTU_from_effectiveness fsolve s = Inr v)
   \<and> (fsolve (effectiveness_equation s) 1.0 = Inr [] \<longrightarrow>
        calculate_NTU_from_effectiveness fsolve s = Inl IndexError)
   \<and> (\<forall>e. fsolve (effectiveness_equation s) 1.0 = Inl e \<longrightarrow>
        calculate_NTU_from_effectiveness fsolve s = Inl e)"
  by (simp add: calculate_NTU_from_effectiveness_def)

text \<open>A root finder that hands back the seed, on the reference state.\<close>

theorem ntu_passes_solver_output_witness:
  "gives_up_with (Num 1.0) (effectiveness_equation reference_state) 1.0 = Inr [Num 1.0]
   \<and> calculate_NTU_from_effectiveness (gives_up_with (Num 1.0)) reference_state = Inr (Num 1.0)"
proof -
  from reference_residual obtain r where "effectiveness_equation reference_state 1.0 = Inr (Num r)" ..
  then have "gives_up_with (Num 1.0) (effectiveness_equation reference_state) 1.0 = Inr [Num 1.0]"
    by (simp add: gives_up_with_def)
  with ntu_passes_solver_output [of "gives_up_with (Num 1.0)" reference_state]
  show ?thesis by simp
qed

section \<open>The round trip\<close>



section \<open>The published conductance\<close>

text \<open>
  Claim C9. Whenever the script runs to its end, the conductance it prints is the
  product of the NTU it got from \<open>calculate_NTU_from_effectiveness\<close> and \<open>C_c\<close>, the
  second value of \<open>calculate_heat_capacity_rates\<close>: for an NTU that is the number \<open>ntu\<close>
  it is the number \<open>ntu * C_c\<close> (and \<^verbatim>\<open>nan\<close> for \<^verbatim>\<open>nan\<close>), where \<open>C_c\<close> is the air mass flow
  rate times the air specific heat times 1000, the cold-side rate, whether or not it is
  the smaller one.
\<close>

theorem UA_is_ntu_times_cold_rate:
  assumes "main_with fsolve instance1 = Inr out"
  shows "(\<forall>ntu. out_ntu out = Num ntu \<longrightarrow> out_UA out = Num (ntu * out_C_c out))
       \<and> (out_ntu out = NaN \<longrightarrow> out_UA out = NaN)
       \<and> out_C_c out = out_air_mass out * air_specific_heat instance1 * 1000
       \<and> (\<exists>s2 s6. with_mass_flows instance1 = Inr s2
             \<and> calculate_effectiveness s2 = Inr (out_effectiveness out, s6)
             \<and> calculate_NTU_from_effectiveness fsolve s6 = Inr (out_ntu out))"
proof -
  obtain water_mass s1 where w: "calculate_water_mass_flow instance1 = (water_mass, s1)"
    by (cases "calculate_water_mass_flow instance1")
  from assms obtain duty air_mass s2 C_h C_c s3 q_actual s4 q_max s5 eff s6 ntu fin_eff where
    am: "calculate_air_mass_flow s1 = Inr (air_mass, s2)"
    and hc: "calculate_heat_capacity_rates s2 = Inr ((C_h, C_c), s3)"
    and qa: "calculate_actual_heat_transfer s3 = Inr (q_actual, s4)"
    and qm: "calculate_max_heat_transfer s4 = Inr (q_max, s5)"
    and ef: "calculate_effectiveness s5 = Inr (eff, s6)"
    and nt: "calculate_NTU_from_effectiveness fsolve s6 = Inr ntu"
    and out: "out = \<lparr> out_water_mass = water_mass, out_duty = duty, out_air_mass = air_mass,
              out_C_h = C_h, out_C_c = C_c, out_q_actual = q_actual, out_q_max = q_max,
              out_effectiveness = eff, out_ntu = ntu,
              out_UA = np_mul ntu C_c, out_fin_efficiency = fin_eff \<rparr>"
    unfolding main_with_def w by (auto simp: and_then_Inr_iff)
  have ua: "(\<forall>x. out_ntu out = Num x \<longrightarrow> out_UA out = Num (x * out_C_c out))
       \<and> (out_ntu out = NaN \<longrightarrow> out_UA out = NaN)"
    by (cases ntu) (simp_all add: out)
  from air_mass_flow_result [OF am] have s2: "s2 = s1\<lparr>air_mass_flow_rate := Some air_mass\<rparr>" .
  from heat_capacity_rates_cold [OF hc] have "C_c = air_mass * air_specific_heat s1 * 1000"
    by (simp add: s2)
  moreover have "air_specific_heat s1 = air_specific_heat instance1"
    using water_mass_flow_frame [of instance1] w by simp
  ultimately have c: "out_C_c out = out_air_mass out * air_specific_heat instance1 * 1000"
    by (simp add: out)
  have s4: "s4 = s3" by (rule actual_heat_transfer_after_rates [OF hc qa])
  have s5: "s5 = s3" using max_heat_transfer_after_rates [OF hc] qm unfolding s4 by blast
  have s6: "s6 = s3" and e2: "calculate_effectiveness s2 = Inr (eff, s3)"
    using effectiveness_after_rates [OF hc] ef unfolding s5 by blast+
  have "with_mass_flows instance1 = Inr s2"
    unfolding with_mass_flows_def w by (simp add: am)
  with e2 nt have "\<exists>s2 s6. with_mass_flows instance1 = Inr s2
             \<and> calculate_effectiveness s2 = Inr (out_effectiveness out, s6)
             \<and> calculate_NTU_from_effectiveness fsolve s6 = Inr (out_ntu out)"
    unfolding s6 by (auto simp: out)
  with ua c show ?thesis by blast
qed

text \<open>
  The script on \<^verbatim>\<open>ThermoFluidProperties(air_temp_change=0.5)\<close> with a root finder that
  hands back 2.5. The hot rate 146.3 is the smaller one (\<open>q_max\<close> is 146.3 * 21.9), the
  cold rate is 292.6, and the conductance is 2.5 * 292.6 = 731.5.
\<close>

theorem UA_is_ntu_times_cold_rate_witness:
  "\<exists>out. main_with (gives_up_with (Num 2.5)) (init (no_args\<lparr>arg_air_temp_change := Some 0.5\<rparr>))
            = Inr out
      \<and> out_ntu out = Num 2.5 \<and> out_C_h out = 146.3 \<and> out_C_c out = 292.6
      \<and> out_q_max out = 146.3 * (47.4 - 25.5)
      \<and> out_UA out = Num (2.5 * 292.6) \<and> out_UA out = Num 731.5"
proof -
  obtain eta where fin: "calculate_fin_efficiency cold_larger_cached = Inr (Num eta)"
    using fin_efficiency_returns by blast
  obtain r where r: "effectiveness_equation cold_larger_cached 1.0 = Inr (Num r)"
    using cold_larger_residual by blast
  have nt: "calculate_NTU_from_effectiveness (gives_up_with (Num 2.5)) cold_larger_cached
              = Inr (Num 2.5)"
    using r by (simp add: calculate_NTU_from_effectiveness_def gives_up_with_def)
  define out where "out = \<lparr> out_water_mass = 0.035, out_duty = 146.3,
             out_air_mass = 146.3 / 502.5,
             out_C_h = 146.3, out_C_c = 292.6, out_q_actual = 146.3, out_q_max = 3203.97,
             out_effectiveness = 146.3 / 3203.97, out_ntu = Num 2.5,
             out_UA = np_mul (Num 2.5) 292.6, out_fin_efficiency = Num eta \<rparr>"
  have m: "main_with (gives_up_with (Num 2.5)) (init (no_args\<lparr>arg_air_temp_change := Some 0.5\<rparr>))
             = Inr out"
    unfolding cold_larger_main nt fin by (simp add: out_def)
  have n: "out_ntu out = Num 2.5" "out_C_c out = 292.6" by (simp_all add: out_def)
  from UA_is_ntu_times_cold_rate [OF m]
  have "out_UA out = Num (2.5 * out_C_c out)" using n(1) by blast
  then have ua: "out_UA out = Num (2.5 * 292.6)" unfolding n(2) .
  have rest: "out_C_h out = 146.3" "out_q_max out = 146.3 * (47.4 - 25.5)"
    by (simp_all add: out_def)
  from m n ua rest show ?thesis
    by (intro exI [of _ out]) simp
qed

section \<open>Fin efficiency\<close>

text \<open>
  Claim C7. \<open>calculate_fin_efficiency\<close> returns \<open>tanh (m * L_c) / (m * L_c)\<close> with
  \<open>m = sqrt (h * P / (k * A_c))\<close>, \<open>P = 2 * w + 2 * t\<close>, \<open>A_c = w * t\<close> and
  \<open>L_c = L + t / 2\<close>, the three lengths divided by 1000, at the constants of the source;
  the value lies in the interval from 0 (excluded) to 1. The same holds for the body of
  the method at every choice of positive \<open>h\<close>, \<open>k\<close>, width, thickness and length.
\<close>

theorem fin_efficiency_formula_and_range:
  "(let w = 16.1 / 1000; t = 0.11 / 1000; L = 3.72 / 1000;
        P = 2 * w + 2 * t; A_c = w * t; L_c = L + t / 2;
        m = sqrt (100.0 * P / (401.0 * A_c))
    in calculate_fin_efficiency s = Inr (Num (tanh (m * L_c) / (m * L_c)))
       \<and> 0 < tanh (m * L_c) / (m * L_c) \<and> tanh (m * L_c) / (m * L_c) \<le> 1)
   \<and> (\<forall>h k w_mm t_mm L_mm. 0 < h \<and> 0 < k \<and> 0 < w_mm \<and> 0 < t_mm \<and> 0 < L_mm \<longrightarrow>
        (let w = w_mm / 1000; t = t_mm / 1000; L = L_mm / 1000;
             P = 2 * w + 2 * t; A_c = w * t; L_c = L + t / 2;
             m = sqrt (h * P / (k * A_c))
         in fin_efficiency h k w_mm t_mm L_mm = Inr (Num (tanh (m * L_c) / (m * L_c)))
            \<and> 0 < tanh (m * L_c) / (m * L_c) \<and> tanh (m * L_c) / (m * L_c) \<le> 1))"
proof -
  have gen: "let w = w_mm / 1000; t = t_mm / 1000; L = L_mm / 1000;
             P = 2 * w + 2 * t; A_c = w * t; L_c = L + t / 2;
             m = sqrt (h * P / (k * A_c))
         in fin_efficiency h k w_mm t_mm L_mm = Inr (Num (tanh (m * L_c) / (m * L_c)))
            \<and> 0 < tanh (m * L_c) / (m * L_c) \<and> tanh (m * L_c) / (m * L_c) \<le> 1"
    if "0 < h" "0 < k" "0 < w_mm" "0 < t_mm" "0 < L_mm" for h k w_mm t_mm L_mm :: real
    unfolding Let_def
    using fin_efficiency_positive [OF that] tanh_over_bounds by blast
  have "(0::real) < 100.0" "(0::real) < 401.0" "(0::real) < 16.1" "(0::real) < 0.11" "(0::real) < 3.72"
    by simp_all
  from gen [OF this] have "let w = 16.1 / 1000; t = 0.11 / 1000; L = 3.72 / 1000;
        P = 2 * w + 2 * t; A_c = w * t; L_c = L + t / 2;
        m = sqrt (100.0 * P / (401.0 * A_c))
    in calculate_fin_efficiency s = Inr (Num (tanh (m * L_c) / (m * L_c)))
       \<and> 0 < tanh (m * L_c) / (m * L_c) \<and> tanh (m * L_c) / (m * L_c) \<le> 1"
    unfolding calculate_fin_efficiency_def .
  with gen show ?thesis by blast
qed

text \<open>The general part at \<open>h = 50\<close>, \<open>k = 200\<close>, and a fin of 10 by 1 by 5 mm.\<close>

theorem fin_efficiency_formula_and_range_witness:
  "\<exists>eta. fin_efficiency 50 200 10 1 5 = Inr (Num eta) \<and> 0 < eta \<and> eta \<le> 1"
proof -
  have "(0::real) < 50 \<and> (0::real) < 200 \<and> (0::real) < 10 \<and> (0::real) < 1 \<and> (0::real) < 5"
    by simp
  with fin_efficiency_formula_and_range [of reference_state] show ?thesis
    unfolding Let_def by blast
qed

end
